theory Spec2Isabelle
  imports Main "HOL-Library.Word"
begin

unbundle bit_operations_syntax

section \<open>Data model of \<open>native_crypto/src/crypto.c\<close>\<close>

text \<open>
  The four exported functions take \<open>uint8_t\<close> pointers with \<open>size_t\<close> lengths and return
  an \<open>int\<close>. \<open>size_t\<close> is modelled at 64 bits (the LP64 targets of the package), \<open>int\<close> at
  32 bits; the return value is read as a mathematical integer.
\<close>

type_synonym byte = "8 word"
type_synonym size_t = "64 word"

text \<open>
  A pointer argument: \<open>None\<close> is \<open>NULL\<close>; \<open>Some bs\<close> points at memory whose accessible
  bytes, from that address on, are \<open>bs\<close>. Distinct arguments are distinct buffers, far
  enough apart that the ranges the library is told about do not overlap (the library's
  check that input and output do not alias is not modelled).
\<close>

type_synonym ptr = "byte list option"

text \<open>
  Reading \<open>n\<close> bytes at \<open>p\<close>. Nothing is read for \<open>n = 0\<close>, whatever \<open>p\<close> is. Reading
  through \<open>NULL\<close> or past the end of the buffer is undefined behaviour: \<open>None\<close>.
\<close>

definition region :: "ptr \<Rightarrow> size_t \<Rightarrow> byte list option" where
  "region p n =
     (if n = 0 then Some []
      else case p of
             None \<Rightarrow> None
           | Some bs \<Rightarrow> if unat n \<le> length bs then Some (take (unat n) bs) else None)"

text \<open>Writing \<open>bs\<close> at \<open>p\<close>: the buffer afterwards, or \<open>None\<close> for a write out of bounds.\<close>

definition store :: "ptr \<Rightarrow> byte list \<Rightarrow> ptr option" where
  "store p bs =
     (if bs = [] then Some p
      else case p of
             None \<Rightarrow> None
           | Some buf \<Rightarrow>
               if length bs \<le> length buf then Some (Some (bs @ drop (length bs) buf))
               else None)"

text \<open>
  The cast \<open>(int)actual_out_len\<close> of lines 85, 150, 206 and 263: the low 32 bits, read
  as two's complement (what the compilers of the package's targets do with a value that
  does not fit an \<open>int\<close>).
\<close>

definition int_of_size_t :: "size_t \<Rightarrow> int" where
  "int_of_size_t n = sint (ucast n :: 32 word)"

text \<open>
  What a call does besides returning: the calls on the algorithm context, in order, and
  the context message of each \<open>handle_boringssl_errors\<close> (the contents of the library's
  error queue are not modelled).
\<close>

datatype event = Ctx_init | Ctx_seal | Ctx_open | Ctx_cleanup | Stderr string

datatype outcome = Returned int | Undefined

record result =
  status :: outcome
  out_buffer :: ptr
  events :: "event list"

section \<open>The cryptographic library, as a parameter\<close>

text \<open>
  \<open>crypto.c\<close> includes \<open>openssl/aead.h\<close>; the library is not part of the repository. An
  algorithm descriptor (\<open>const EVP_AEAD *\<close>) is a record of what the code asks of it. The
  context is whatever \<open>aead_init\<close> builds from the key bytes and the tag length. Seal and
  open first check the lengths they are given (\<open>max_out_len\<close>, \<open>nonce_len\<close>, \<open>in_len\<close>,
  \<open>ad_len\<close>), before they read anything: \<open>seal_refuses\<close> and \<open>open_refuses\<close>. Then they
  work on the context, \<open>max_out_len\<close>, the nonce, the input and the associated data as
  byte sequences, and give the bytes they write, or \<open>None\<close> when they fail.
\<close>

record 'c EVP_AEAD =
  EVP_AEAD_key_length :: size_t
  EVP_AEAD_max_overhead :: size_t
  aead_init :: "byte list \<Rightarrow> size_t \<Rightarrow> 'c option"
  seal_refuses :: "size_t \<Rightarrow> size_t \<Rightarrow> size_t \<Rightarrow> size_t \<Rightarrow> bool"
  open_refuses :: "size_t \<Rightarrow> size_t \<Rightarrow> size_t \<Rightarrow> size_t \<Rightarrow> bool"
  aead_seal :: "'c \<Rightarrow> size_t \<Rightarrow> byte list \<Rightarrow> byte list \<Rightarrow> byte list \<Rightarrow> byte list option"
  aead_open :: "'c \<Rightarrow> size_t \<Rightarrow> byte list \<Rightarrow> byte list \<Rightarrow> byte list \<Rightarrow> byte list option"

text \<open>
  The library: the two descriptors the code selects, and the macro
  \<open>EVP_AEAD_DEFAULT_TAG_LENGTH\<close>, whose value is in the library's header.
\<close>

record 'c crypto_library =
  EVP_aead_aes_256_gcm :: "'c EVP_AEAD"
  EVP_aead_chacha20_poly1305 :: "'c EVP_AEAD"
  EVP_AEAD_DEFAULT_TAG_LENGTH :: size_t

text \<open>A library call: undefined behaviour, return 0, or return 1 with its effect.\<close>

datatype 'a call = Crashed | Zero | One 'a

definition EVP_AEAD_CTX_init :: "'c EVP_AEAD \<Rightarrow> ptr \<Rightarrow> size_t \<Rightarrow> size_t \<Rightarrow> 'c call" where
  "EVP_AEAD_CTX_init aead key key_len tag_len =
     (case region key key_len of
        None \<Rightarrow> Crashed
      | Some kb \<Rightarrow> (case aead_init aead kb tag_len of None \<Rightarrow> Zero | Some ctx \<Rightarrow> One ctx))"

text \<open>
  The error path of \<open>EVP_AEAD_CTX_seal\<close> and \<open>EVP_AEAD_CTX_open\<close>: before returning 0 the
  library clears \<open>max_out_len\<close> bytes at \<open>out\<close> (so that a caller who ignores the return
  value finds no data). \<open>cleared out max_out_len\<close> is the buffer afterwards; when the
  buffer is shorter than \<open>max_out_len\<close> the write runs past its end.
\<close>

definition error_path :: "ptr \<Rightarrow> size_t \<Rightarrow> 'a call" where
  "error_path out max_out_len =
     (case store out (replicate (unat max_out_len) 0) of None \<Rightarrow> Crashed | Some out' \<Rightarrow> Zero)"

definition cleared :: "ptr \<Rightarrow> size_t \<Rightarrow> ptr" where
  "cleared out max_out_len =
     (case store out (replicate (unat max_out_len) 0) of None \<Rightarrow> out | Some out' \<Rightarrow> out')"

definition EVP_AEAD_CTX_seal ::
  "'c EVP_AEAD \<Rightarrow> 'c \<Rightarrow> ptr \<Rightarrow> size_t \<Rightarrow> ptr \<Rightarrow> size_t \<Rightarrow> ptr \<Rightarrow> size_t \<Rightarrow> ptr \<Rightarrow> size_t
     \<Rightarrow> (ptr \<times> size_t) call" where
  "EVP_AEAD_CTX_seal aead ctx out max_out_len nonce nonce_len inp in_len ad ad_len =
     (if seal_refuses aead max_out_len nonce_len in_len ad_len then error_path out max_out_len
      else
      case region nonce nonce_len of None \<Rightarrow> Crashed | Some n \<Rightarrow>
      case region inp in_len of None \<Rightarrow> Crashed | Some p \<Rightarrow>
      case region ad ad_len of None \<Rightarrow> Crashed | Some a \<Rightarrow>
      case aead_seal aead ctx max_out_len n p a of
        None \<Rightarrow> error_path out max_out_len
      | Some ct \<Rightarrow>
          (case store out ct of None \<Rightarrow> Crashed | Some out' \<Rightarrow>
             One (out', of_nat (length ct))))"

definition EVP_AEAD_CTX_open ::
  "'c EVP_AEAD \<Rightarrow> 'c \<Rightarrow> ptr \<Rightarrow> size_t \<Rightarrow> ptr \<Rightarrow> size_t \<Rightarrow> ptr \<Rightarrow> size_t \<Rightarrow> ptr \<Rightarrow> size_t
     \<Rightarrow> (ptr \<times> size_t) call" where
  "EVP_AEAD_CTX_open aead ctx out max_out_len nonce nonce_len inp in_len ad ad_len =
     (if open_refuses aead max_out_len nonce_len in_len ad_len then error_path out max_out_len
      else
      case region nonce nonce_len of None \<Rightarrow> Crashed | Some n \<Rightarrow>
      case region inp in_len of None \<Rightarrow> Crashed | Some c \<Rightarrow>
      case region ad ad_len of None \<Rightarrow> Crashed | Some a \<Rightarrow>
      case aead_open aead ctx max_out_len n c a of
        None \<Rightarrow> error_path out max_out_len
      | Some pt \<Rightarrow>
          (case store out pt of None \<Rightarrow> Crashed | Some out' \<Rightarrow>
             One (out', of_nat (length pt))))"

section \<open>The four operations\<close>

definition encrypt_aes_gcm_256 ::
  "'c crypto_library \<Rightarrow> ptr \<Rightarrow> size_t \<Rightarrow> ptr \<Rightarrow> ptr \<Rightarrow> size_t \<Rightarrow> ptr \<Rightarrow> size_t \<Rightarrow> ptr \<Rightarrow> result" where
  "encrypt_aes_gcm_256 L plaintext plaintext_len key nonce nonce_len aad aad_len out_ciphertext_tag =
     (let aead_alg = EVP_aead_aes_256_gcm L;
          max_out_len = plaintext_len + EVP_AEAD_max_overhead aead_alg
      in
      if plaintext = None \<or> key = None \<or> nonce = None \<or> out_ciphertext_tag = None
      then \<lparr>status = Returned (- 1), out_buffer = out_ciphertext_tag, events = []\<rparr>
      else if EVP_AEAD_key_length aead_alg \<noteq> 32
      then \<lparr>status = Returned (- 1), out_buffer = out_ciphertext_tag, events = []\<rparr>
      else if nonce_len \<noteq> 12
      then \<lparr>status = Returned (- 1), out_buffer = out_ciphertext_tag, events = []\<rparr>
      else
        case EVP_AEAD_CTX_init aead_alg key (EVP_AEAD_key_length aead_alg)
               (EVP_AEAD_DEFAULT_TAG_LENGTH L) of
          Crashed \<Rightarrow>
            \<lparr>status = Undefined, out_buffer = out_ciphertext_tag, events = [Ctx_init]\<rparr>
        | Zero \<Rightarrow>
            \<lparr>status = Returned (- 1), out_buffer = out_ciphertext_tag,
             events = [Ctx_init, Stderr ''EVP_AEAD_CTX_init (encrypt AES)'', Ctx_cleanup]\<rparr>
        | One ctx \<Rightarrow>
            (case EVP_AEAD_CTX_seal aead_alg ctx out_ciphertext_tag max_out_len
                    nonce nonce_len plaintext plaintext_len aad aad_len of
               Crashed \<Rightarrow>
                 \<lparr>status = Undefined, out_buffer = out_ciphertext_tag,
                  events = [Ctx_init, Ctx_seal]\<rparr>
             | Zero \<Rightarrow>
                 \<lparr>status = Returned (- 1), out_buffer = cleared out_ciphertext_tag max_out_len,
                  events = [Ctx_init, Ctx_seal, Stderr ''EVP_AEAD_CTX_seal (AES)'', Ctx_cleanup]\<rparr>
             | One (out', actual_out_len) \<Rightarrow>
                 \<lparr>status = Returned (int_of_size_t actual_out_len), out_buffer = out',
                  events = [Ctx_init, Ctx_seal, Ctx_cleanup]\<rparr>))"

definition decrypt_aes_gcm_256 ::
  "'c crypto_library \<Rightarrow> ptr \<Rightarrow> size_t \<Rightarrow> ptr \<Rightarrow> ptr \<Rightarrow> size_t \<Rightarrow> ptr \<Rightarrow> size_t \<Rightarrow> ptr \<Rightarrow> result" where
  "decrypt_aes_gcm_256 L ciphertext_tag ciphertext_tag_len key nonce nonce_len aad aad_len out_plaintext =
     (let aead_alg = EVP_aead_aes_256_gcm L;
          max_out_len = ciphertext_tag_len
      in
      if ciphertext_tag = None \<or> key = None \<or> nonce = None \<or> out_plaintext = None
      then \<lparr>status = Returned (- 1), out_buffer = out_plaintext, events = []\<rparr>
      else if EVP_AEAD_key_length aead_alg \<noteq> 32
      then \<lparr>status = Returned (- 1), out_buffer = out_plaintext, events = []\<rparr>
      else if nonce_len \<noteq> 12
      then \<lparr>status = Returned (- 1), out_buffer = out_plaintext, events = []\<rparr>
      else if ciphertext_tag_len < EVP_AEAD_DEFAULT_TAG_LENGTH L
      then \<lparr>status = Returned (- 2), out_buffer = out_plaintext, events = []\<rparr>
      else
        case EVP_AEAD_CTX_init aead_alg key (EVP_AEAD_key_length aead_alg)
               (EVP_AEAD_DEFAULT_TAG_LENGTH L) of
          Crashed \<Rightarrow>
            \<lparr>status = Undefined, out_buffer = out_plaintext, events = [Ctx_init]\<rparr>
        | Zero \<Rightarrow>
            \<lparr>status = Returned (- 1), out_buffer = out_plaintext,
             events = [Ctx_init, Stderr ''EVP_AEAD_CTX_init (decrypt AES)'', Ctx_cleanup]\<rparr>
        | One ctx \<Rightarrow>
            (case EVP_AEAD_CTX_open aead_alg ctx out_plaintext max_out_len
                    nonce nonce_len ciphertext_tag ciphertext_tag_len aad aad_len of
               Crashed \<Rightarrow>
                 \<lparr>status = Undefined, out_buffer = out_plaintext,
                  events = [Ctx_init, Ctx_open]\<rparr>
             | Zero \<Rightarrow>
                 \<lparr>status = Returned (- 2), out_buffer = cleared out_plaintext max_out_len,
                  events = [Ctx_init, Ctx_open, Stderr ''EVP_AEAD_CTX_open (AES)'', Ctx_cleanup]\<rparr>
             | One (out', actual_out_len) \<Rightarrow>
                 \<lparr>status = Returned (int_of_size_t actual_out_len), out_buffer = out',
                  events = [Ctx_init, Ctx_open, Ctx_cleanup]\<rparr>))"

definition encrypt_chacha20_poly1305 ::
  "'c crypto_library \<Rightarrow> ptr \<Rightarrow> size_t \<Rightarrow> ptr \<Rightarrow> ptr \<Rightarrow> size_t \<Rightarrow> ptr \<Rightarrow> size_t \<Rightarrow> ptr \<Rightarrow> result" where
  "encrypt_chacha20_poly1305 L plaintext plaintext_len key nonce nonce_len aad aad_len out_ciphertext_tag =
     (let aead_alg = EVP_aead_chacha20_poly1305 L;
          max_out_len = plaintext_len + EVP_AEAD_max_overhead aead_alg
      in
      if plaintext = None \<or> key = None \<or> nonce = None \<or> out_ciphertext_tag = None
      then \<lparr>status = Returned (- 1), out_buffer = out_ciphertext_tag, events = []\<rparr>
      else if EVP_AEAD_key_length aead_alg \<noteq> 32
      then \<lparr>status = Returned (- 1), out_buffer = out_ciphertext_tag, events = []\<rparr>
      else if nonce_len \<noteq> 12
      then \<lparr>status = Returned (- 1), out_buffer = out_ciphertext_tag, events = []\<rparr>
      else
        case EVP_AEAD_CTX_init aead_alg key (EVP_AEAD_key_length aead_alg)
               (EVP_AEAD_DEFAULT_TAG_LENGTH L) of
          Crashed \<Rightarrow>
            \<lparr>status = Undefined, out_buffer = out_ciphertext_tag, events = [Ctx_init]\<rparr>
        | Zero \<Rightarrow>
            \<lparr>status = Returned (- 1), out_buffer = out_ciphertext_tag,
             events = [Ctx_init, Stderr ''EVP_AEAD_CTX_init (encrypt ChaCha)'', Ctx_cleanup]\<rparr>
        | One ctx \<Rightarrow>
            (case EVP_AEAD_CTX_seal aead_alg ctx out_ciphertext_tag max_out_len
                    nonce nonce_len plaintext plaintext_len aad aad_len of
               Crashed \<Rightarrow>
                 \<lparr>status = Undefined, out_buffer = out_ciphertext_tag,
                  events = [Ctx_init, Ctx_seal]\<rparr>
             | Zero \<Rightarrow>
                 \<lparr>status = Returned (- 1), out_buffer = cleared out_ciphertext_tag max_out_len,
                  events = [Ctx_init, Ctx_seal, Stderr ''EVP_AEAD_CTX_seal (ChaCha)'', Ctx_cleanup]\<rparr>
             | One (out', actual_out_len) \<Rightarrow>
                 \<lparr>status = Returned (int_of_size_t actual_out_len), out_buffer = out',
                  events = [Ctx_init, Ctx_seal, Ctx_cleanup]\<rparr>))"

definition decrypt_chacha20_poly1305 ::
  "'c crypto_library \<Rightarrow> ptr \<Rightarrow> size_t \<Rightarrow> ptr \<Rightarrow> ptr \<Rightarrow> size_t \<Rightarrow> ptr \<Rightarrow> size_t \<Rightarrow> ptr \<Rightarrow> result" where
  "decrypt_chacha20_poly1305 L ciphertext_tag ciphertext_tag_len key nonce nonce_len aad aad_len out_plaintext =
     (let aead_alg = EVP_aead_chacha20_poly1305 L;
          max_out_len = ciphertext_tag_len
      in
      if ciphertext_tag = None \<or> key = None \<or> nonce = None \<or> out_plaintext = None
      then \<lparr>status = Returned (- 1), out_buffer = out_plaintext, events = []\<rparr>
      else if EVP_AEAD_key_length aead_alg \<noteq> 32
      then \<lparr>status = Returned (- 1), out_buffer = out_plaintext, events = []\<rparr>
      else if nonce_len \<noteq> 12
      then \<lparr>status = Returned (- 1), out_buffer = out_plaintext, events = []\<rparr>
      else if ciphertext_tag_len < EVP_AEAD_DEFAULT_TAG_LENGTH L
      then \<lparr>status = Returned (- 2), out_buffer = out_plaintext, events = []\<rparr>
      else
        case EVP_AEAD_CTX_init aead_alg key (EVP_AEAD_key_length aead_alg)
               (EVP_AEAD_DEFAULT_TAG_LENGTH L) of
          Crashed \<Rightarrow>
            \<lparr>status = Undefined, out_buffer = out_plaintext, events = [Ctx_init]\<rparr>
        | Zero \<Rightarrow>
            \<lparr>status = Returned (- 1), out_buffer = out_plaintext,
             events = [Ctx_init, Stderr ''EVP_AEAD_CTX_init (decrypt ChaCha)'', Ctx_cleanup]\<rparr>
        | One ctx \<Rightarrow>
            (case EVP_AEAD_CTX_open aead_alg ctx out_plaintext max_out_len
                    nonce nonce_len ciphertext_tag ciphertext_tag_len aad aad_len of
               Crashed \<Rightarrow>
                 \<lparr>status = Undefined, out_buffer = out_plaintext,
                  events = [Ctx_init, Ctx_open]\<rparr>
             | Zero \<Rightarrow>
                 \<lparr>status = Returned (- 2), out_buffer = cleared out_plaintext max_out_len,
                  events = [Ctx_init, Ctx_open, Stderr ''EVP_AEAD_CTX_open (ChaCha)'', Ctx_cleanup]\<rparr>
             | One (out', actual_out_len) \<Rightarrow>
                 \<lparr>status = Returned (int_of_size_t actual_out_len), out_buffer = out',
                  events = [Ctx_init, Ctx_open, Ctx_cleanup]\<rparr>))"

section \<open>A stand-in library\<close>

text \<open>
  Concrete inputs need a concrete library. The stand-in has the interface of the real one
  and none of its strength: it leaves the payload as it is and appends, as the 16-byte
  tag, 16 copies of the XOR of all bytes of key, nonce, associated data and payload. It
  refuses, on the lengths alone, a seal whose \<open>max_out_len\<close> is short of input plus tag
  and an open whose input is shorter than a tag or whose \<open>max_out_len\<close> is short of
  input minus tag; it rejects an open whose tag does not match. Its \<open>EVP_AEAD_DEFAULT_TAG_LENGTH\<close>
  is 0, the value of the macro in the header \<open>openssl/aead.h\<close> that \<open>crypto.c\<close> includes
  (there it is the value that asks \<open>EVP_AEAD_CTX_init\<close> for the algorithm's default tag
  length, which is 16 for both algorithms).
\<close>

definition xor_sum :: "byte list \<Rightarrow> byte" where
  "xor_sum bs = foldr (XOR) bs 0"

definition stand_in_tag :: "byte list \<Rightarrow> byte list \<Rightarrow> byte list \<Rightarrow> byte list \<Rightarrow> byte list" where
  "stand_in_tag kb n a p = replicate 16 (xor_sum (kb @ n @ a @ p))"

definition stand_in_aead :: "(byte list) EVP_AEAD" where
  "stand_in_aead =
     \<lparr>EVP_AEAD_key_length = 32,
      EVP_AEAD_max_overhead = 16,
      aead_init = (\<lambda>kb tag_len.
         if length kb = 32 \<and> (tag_len = 0 \<or> tag_len = 16) then Some kb else None),
      seal_refuses = (\<lambda>max_out_len nonce_len in_len ad_len.
         \<not> unat in_len + 16 \<le> unat max_out_len),
      open_refuses = (\<lambda>max_out_len nonce_len in_len ad_len.
         unat in_len < 16 \<or> unat max_out_len < unat in_len - 16),
      aead_seal = (\<lambda>kb max_out_len n p a.
         if length p + 16 \<le> unat max_out_len then Some (p @ stand_in_tag kb n a p) else None),
      aead_open = (\<lambda>kb max_out_len n c a.
         if 16 \<le> length c \<and> length c - 16 \<le> unat max_out_len
            \<and> drop (length c - 16) c = stand_in_tag kb n a (take (length c - 16) c)
         then Some (take (length c - 16) c) else None)\<rparr>"

definition stand_in_library :: "(byte list) crypto_library" where
  "stand_in_library =
     \<lparr>EVP_aead_aes_256_gcm = stand_in_aead,
      EVP_aead_chacha20_poly1305 = stand_in_aead,
      EVP_AEAD_DEFAULT_TAG_LENGTH = 0\<rparr>"

text \<open>Two faulty libraries: context initialisation fails; the seal step fails.\<close>

definition init_failing_library :: "(byte list) crypto_library" where
  "init_failing_library =
     \<lparr>EVP_aead_aes_256_gcm = stand_in_aead\<lparr>aead_init := (\<lambda>kb tag_len. None)\<rparr>,
      EVP_aead_chacha20_poly1305 = stand_in_aead\<lparr>aead_init := (\<lambda>kb tag_len. None)\<rparr>,
      EVP_AEAD_DEFAULT_TAG_LENGTH = 0\<rparr>"

definition seal_failing_library :: "(byte list) crypto_library" where
  "seal_failing_library =
     \<lparr>EVP_aead_aes_256_gcm = stand_in_aead\<lparr>aead_seal := (\<lambda>kb m n p a. None)\<rparr>,
      EVP_aead_chacha20_poly1305 = stand_in_aead\<lparr>aead_seal := (\<lambda>kb m n p a. None)\<rparr>,
      EVP_AEAD_DEFAULT_TAG_LENGTH = 0\<rparr>"

section \<open>Vocabulary of the properties\<close>

text \<open>
  The argument checks that open each of the four functions (lines 60-64, 124-126, 187-191
  and 243-245 of \<open>crypto.c\<close>): a required pointer is \<open>NULL\<close>, the algorithm's key length
  is not 32, or the nonce length is not 12. The \<open>aad\<close> pointer is not among them.
\<close>

definition args_invalid :: "'c EVP_AEAD \<Rightarrow> ptr \<Rightarrow> ptr \<Rightarrow> ptr \<Rightarrow> size_t \<Rightarrow> ptr \<Rightarrow> bool" where
  "args_invalid aead_alg inp key nonce nonce_len out \<longleftrightarrow>
     inp = None \<or> key = None \<or> nonce = None \<or> out = None
     \<or> EVP_AEAD_key_length aead_alg \<noteq> 32 \<or> nonce_len \<noteq> 12"

text \<open>
  The control flow the two encrypt functions share, and the one the two decrypt functions
  share, with the descriptor, the tag-length macro and the two diagnostic messages as
  parameters. They serve the proofs only: each of the four functions is shown equal to
  its instance below, and every property is stated on the four functions themselves.
\<close>

definition seal_skeleton ::
  "'c EVP_AEAD \<Rightarrow> size_t \<Rightarrow> string \<Rightarrow> string
     \<Rightarrow> ptr \<Rightarrow> size_t \<Rightarrow> ptr \<Rightarrow> ptr \<Rightarrow> size_t \<Rightarrow> ptr \<Rightarrow> size_t \<Rightarrow> ptr \<Rightarrow> result" where
  "seal_skeleton A tag_len init_msg seal_msg inp in_len key nonce nonce_len aad aad_len out =
     (if inp = None \<or> key = None \<or> nonce = None \<or> out = None
      then \<lparr>status = Returned (- 1), out_buffer = out, events = []\<rparr>
      else if EVP_AEAD_key_length A \<noteq> 32
      then \<lparr>status = Returned (- 1), out_buffer = out, events = []\<rparr>
      else if nonce_len \<noteq> 12
      then \<lparr>status = Returned (- 1), out_buffer = out, events = []\<rparr>
      else
        case EVP_AEAD_CTX_init A key (EVP_AEAD_key_length A) tag_len of
          Crashed \<Rightarrow> \<lparr>status = Undefined, out_buffer = out, events = [Ctx_init]\<rparr>
        | Zero \<Rightarrow>
            \<lparr>status = Returned (- 1), out_buffer = out,
             events = [Ctx_init, Stderr init_msg, Ctx_cleanup]\<rparr>
        | One ctx \<Rightarrow>
            (case EVP_AEAD_CTX_seal A ctx out (in_len + EVP_AEAD_max_overhead A)
                    nonce nonce_len inp in_len aad aad_len of
               Crashed \<Rightarrow>
                 \<lparr>status = Undefined, out_buffer = out, events = [Ctx_init, Ctx_seal]\<rparr>
             | Zero \<Rightarrow>
                 \<lparr>status = Returned (- 1),
                  out_buffer = cleared out (in_len + EVP_AEAD_max_overhead A),
                  events = [Ctx_init, Ctx_seal, Stderr seal_msg, Ctx_cleanup]\<rparr>
             | One (out', actual_out_len) \<Rightarrow>
                 \<lparr>status = Returned (int_of_size_t actual_out_len), out_buffer = out',
                  events = [Ctx_init, Ctx_seal, Ctx_cleanup]\<rparr>))"

definition open_skeleton ::
  "'c EVP_AEAD \<Rightarrow> size_t \<Rightarrow> string \<Rightarrow> string
     \<Rightarrow> ptr \<Rightarrow> size_t \<Rightarrow> ptr \<Rightarrow> ptr \<Rightarrow> size_t \<Rightarrow> ptr \<Rightarrow> size_t \<Rightarrow> ptr \<Rightarrow> result" where
  "open_skeleton A tag_len init_msg open_msg inp in_len key nonce nonce_len aad aad_len out =
     (if inp = None \<or> key = None \<or> nonce = None \<or> out = None
      then \<lparr>status = Returned (- 1), out_buffer = out, events = []\<rparr>
      else if EVP_AEAD_key_length A \<noteq> 32
      then \<lparr>status = Returned (- 1), out_buffer = out, events = []\<rparr>
      else if nonce_len \<noteq> 12
      then \<lparr>status = Returned (- 1), out_buffer = out, events = []\<rparr>
      else if in_len < tag_len
      then \<lparr>status = Returned (- 2), out_buffer = out, events = []\<rparr>
      else
        case EVP_AEAD_CTX_init A key (EVP_AEAD_key_length A) tag_len of
          Crashed \<Rightarrow> \<lparr>status = Undefined, out_buffer = out, events = [Ctx_init]\<rparr>
        | Zero \<Rightarrow>
            \<lparr>status = Returned (- 1), out_buffer = out,
             events = [Ctx_init, Stderr init_msg, Ctx_cleanup]\<rparr>
        | One ctx \<Rightarrow>
            (case EVP_AEAD_CTX_open A ctx out in_len
                    nonce nonce_len inp in_len aad aad_len of
               Crashed \<Rightarrow>
                 \<lparr>status = Undefined, out_buffer = out, events = [Ctx_init, Ctx_open]\<rparr>
             | Zero \<Rightarrow>
                 \<lparr>status = Returned (- 2), out_buffer = cleared out in_len,
                  events = [Ctx_init, Ctx_open, Stderr open_msg, Ctx_cleanup]\<rparr>
             | One (out', actual_out_len) \<Rightarrow>
                 \<lparr>status = Returned (int_of_size_t actual_out_len), out_buffer = out',
                  events = [Ctx_init, Ctx_open, Ctx_cleanup]\<rparr>))"

text \<open>
  A call releases its context exactly once: if it touched \<open>EVP_AEAD_CTX_init\<close>, that was
  its first event and happened once, \<open>EVP_AEAD_CTX_cleanup\<close> was its last event and
  happened once; if it did not, it made no call on a context at all.
\<close>

definition released_exactly_once :: "event list \<Rightarrow> bool" where
  "released_exactly_once es \<longleftrightarrow>
     (if Ctx_init \<in> set es
      then hd es = Ctx_init \<and> count_list es Ctx_init = 1
         \<and> last es = Ctx_cleanup \<and> count_list es Ctx_cleanup = 1
      else Ctx_seal \<notin> set es \<and> Ctx_open \<notin> set es \<and> Ctx_cleanup \<notin> set es)"

text \<open>Bit \<open>i\<close> of a byte sequence flipped (bit \<open>i mod 8\<close> of byte \<open>i div 8\<close>).\<close>

definition flip_bit_at :: "byte list \<Rightarrow> nat \<Rightarrow> byte list" where
  "flip_bit_at bs i = bs[i div 8 := (bs ! (i div 8)) XOR push_bit (i mod 8) 1]"

subsection \<open>What the code relies on from the library\<close>

text \<open>
  The properties below are the library's, not the code's: the section on external
  interfaces of the specification delegates them to the collaborator. Each theorem that
  depends on one names it as an assumption. Those that speak of every input
  (\<open>init_accepts\<close>, the two length laws, \<open>open_inverts_seal\<close>) hold of a library that
  refuses large inputs too, since they say nothing of what seal accepts.
\<close>

text \<open>Context initialisation accepts every 32-byte key with the given tag length.\<close>

definition init_accepts :: "'c EVP_AEAD \<Rightarrow> size_t \<Rightarrow> bool" where
  "init_accepts A tag_len \<longleftrightarrow> (\<forall>kb. length kb = 32 \<longrightarrow> aead_init A kb tag_len \<noteq> None)"

text \<open>
  Seal accepts this nonce, this plaintext and this associated data, with the
  \<open>max_out_len\<close> the code passes (input length plus \<open>EVP_AEAD_max_overhead\<close>). It speaks
  of one input only: a library may accept it and refuse larger ones.
\<close>

definition seal_accepts_input :: "'c EVP_AEAD \<Rightarrow> byte list \<Rightarrow> byte list \<Rightarrow> byte list \<Rightarrow> bool" where
  "seal_accepts_input A n p a \<longleftrightarrow>
     \<not> seal_refuses A (of_nat (length p) + EVP_AEAD_max_overhead A) (of_nat (length n))
          (of_nat (length p)) (of_nat (length a))
     \<and> (\<forall>ctx. aead_seal A ctx (of_nat (length p) + EVP_AEAD_max_overhead A) n p a \<noteq> None)"

text \<open>Seal writes input length plus 16 bytes; open writes input length minus 16 bytes.\<close>

definition seal_length_law :: "'c EVP_AEAD \<Rightarrow> bool" where
  "seal_length_law A \<longleftrightarrow>
     (\<forall>ctx m n p a ct. aead_seal A ctx m n p a = Some ct \<longrightarrow> length ct = length p + 16)"

definition open_length_law :: "'c EVP_AEAD \<Rightarrow> bool" where
  "open_length_law A \<longleftrightarrow>
     (\<forall>ctx m n c a p. aead_open A ctx m n c a = Some p \<longrightarrow> length c = length p + 16)"

text \<open>
  Open, under the same context, nonce and associated data, and with room for the
  plaintext, accepts what seal produced and inverts it.
\<close>

definition open_inverts_seal :: "'c EVP_AEAD \<Rightarrow> bool" where
  "open_inverts_seal A \<longleftrightarrow>
     (\<forall>ctx m m' n p a ct.
        aead_seal A ctx m n p a = Some ct \<and> length p \<le> unat m'
          \<longrightarrow> \<not> open_refuses A m' (of_nat (length n)) (of_nat (length ct)) (of_nat (length a))
            \<and> aead_open A ctx m' n ct a = Some p)"

text \<open>
  The properties the round trip needs of a descriptor for every input, together. None
  of them says that seal accepts an input.
\<close>

definition aead_contract :: "'c EVP_AEAD \<Rightarrow> size_t \<Rightarrow> bool" where
  "aead_contract A tag_len \<longleftrightarrow>
     EVP_AEAD_key_length A = 32 \<and> EVP_AEAD_max_overhead A = 16
     \<and> init_accepts A tag_len \<and> seal_length_law A \<and> open_inverts_seal A"

text \<open>
  Tampering: \<open>ys\<close> is \<open>xs\<close> with one bit flipped; and a sealed output \<open>c\<close> with its key,
  nonce and associated data, of which exactly one has one bit flipped.
\<close>

definition single_bit_flip :: "byte list \<Rightarrow> byte list \<Rightarrow> bool" where
  "single_bit_flip xs ys \<longleftrightarrow> (\<exists>i < 8 * length xs. ys = flip_bit_at xs i)"

definition tampered ::
  "byte list \<Rightarrow> byte list \<Rightarrow> byte list \<Rightarrow> byte list
     \<Rightarrow> byte list \<Rightarrow> byte list \<Rightarrow> byte list \<Rightarrow> byte list \<Rightarrow> bool" where
  "tampered c k n a c' k' n' a' \<longleftrightarrow>
     single_bit_flip c c' \<and> k' = k \<and> n' = n \<and> a' = a
     \<or> c' = c \<and> single_bit_flip k k' \<and> n' = n \<and> a' = a
     \<or> c' = c \<and> k' = k \<and> single_bit_flip n n' \<and> a' = a
     \<or> c' = c \<and> k' = k \<and> n' = n \<and> single_bit_flip a a'"

text \<open>
  Open rejects a sealed output after one bit of the output (ciphertext or tag), of the
  key, of the nonce or of the associated data has been flipped. This is the
  authentication strength of the primitive, taken as given.
\<close>

definition open_rejects_tampered :: "'c EVP_AEAD \<Rightarrow> size_t \<Rightarrow> bool" where
  "open_rejects_tampered A tag_len \<longleftrightarrow>
     (\<forall>k ctx m n p a c k' ctx' m' n' a' c'.
        aead_init A k tag_len = Some ctx \<and> aead_seal A ctx m n p a = Some c
        \<and> tampered c k n a c' k' n' a' \<and> aead_init A k' tag_len = Some ctx'
          \<longrightarrow> aead_open A ctx' m' n' c' a' = None)"

section \<open>The four functions and their skeletons\<close>

lemma encrypt_aes_gcm_256_skeleton:
  "encrypt_aes_gcm_256 L inp in_len key nonce nonce_len aad aad_len out =
     seal_skeleton (EVP_aead_aes_256_gcm L) (EVP_AEAD_DEFAULT_TAG_LENGTH L)
       ''EVP_AEAD_CTX_init (encrypt AES)'' ''EVP_AEAD_CTX_seal (AES)''
       inp in_len key nonce nonce_len aad aad_len out"
  unfolding encrypt_aes_gcm_256_def seal_skeleton_def Let_def
  by (rule refl)

lemma decrypt_aes_gcm_256_skeleton:
  "decrypt_aes_gcm_256 L inp in_len key nonce nonce_len aad aad_len out =
     open_skeleton (EVP_aead_aes_256_gcm L) (EVP_AEAD_DEFAULT_TAG_LENGTH L)
       ''EVP_AEAD_CTX_init (decrypt AES)'' ''EVP_AEAD_CTX_open (AES)''
       inp in_len key nonce nonce_len aad aad_len out"
  unfolding decrypt_aes_gcm_256_def open_skeleton_def Let_def
  by (rule refl)

lemma encrypt_chacha20_poly1305_skeleton:
  "encrypt_chacha20_poly1305 L inp in_len key nonce nonce_len aad aad_len out =
     seal_skeleton (EVP_aead_chacha20_poly1305 L) (EVP_AEAD_DEFAULT_TAG_LENGTH L)
       ''EVP_AEAD_CTX_init (encrypt ChaCha)'' ''EVP_AEAD_CTX_seal (ChaCha)''
       inp in_len key nonce nonce_len aad aad_len out"
  unfolding encrypt_chacha20_poly1305_def seal_skeleton_def Let_def
  by (rule refl)

lemma decrypt_chacha20_poly1305_skeleton:
  "decrypt_chacha20_poly1305 L inp in_len key nonce nonce_len aad aad_len out =
     open_skeleton (EVP_aead_chacha20_poly1305 L) (EVP_AEAD_DEFAULT_TAG_LENGTH L)
       ''EVP_AEAD_CTX_init (decrypt ChaCha)'' ''EVP_AEAD_CTX_open (ChaCha)''
       inp in_len key nonce nonce_len aad aad_len out"
  unfolding decrypt_chacha20_poly1305_def open_skeleton_def Let_def
  by (rule refl)

lemmas skeletons = encrypt_aes_gcm_256_skeleton decrypt_aes_gcm_256_skeleton
  encrypt_chacha20_poly1305_skeleton decrypt_chacha20_poly1305_skeleton

lemma seal_skeleton_invalid:
  "args_invalid A inp key nonce nonce_len out \<Longrightarrow>
   seal_skeleton A tag_len m1 m2 inp in_len key nonce nonce_len aad aad_len out
     = \<lparr>status = Returned (- 1), out_buffer = out, events = []\<rparr>"
  unfolding seal_skeleton_def args_invalid_def by auto

lemma open_skeleton_invalid:
  "args_invalid A inp key nonce nonce_len out \<Longrightarrow>
   open_skeleton A tag_len m1 m2 inp in_len key nonce nonce_len aad aad_len out
     = \<lparr>status = Returned (- 1), out_buffer = out, events = []\<rparr>"
  unfolding open_skeleton_def args_invalid_def by auto

lemma seal_skeleton_valid:
  "\<not> args_invalid A inp key nonce nonce_len out \<Longrightarrow>
   seal_skeleton A tag_len m1 m2 inp in_len key nonce nonce_len aad aad_len out
     = (case EVP_AEAD_CTX_init A key 32 tag_len of
          Crashed \<Rightarrow> \<lparr>status = Undefined, out_buffer = out, events = [Ctx_init]\<rparr>
        | Zero \<Rightarrow>
            \<lparr>status = Returned (- 1), out_buffer = out,
             events = [Ctx_init, Stderr m1, Ctx_cleanup]\<rparr>
        | One ctx \<Rightarrow>
            (case EVP_AEAD_CTX_seal A ctx out (in_len + EVP_AEAD_max_overhead A)
                    nonce 12 inp in_len aad aad_len of
               Crashed \<Rightarrow>
                 \<lparr>status = Undefined, out_buffer = out, events = [Ctx_init, Ctx_seal]\<rparr>
             | Zero \<Rightarrow>
                 \<lparr>status = Returned (- 1),
                  out_buffer = cleared out (in_len + EVP_AEAD_max_overhead A),
                  events = [Ctx_init, Ctx_seal, Stderr m2, Ctx_cleanup]\<rparr>
             | One (out', actual_out_len) \<Rightarrow>
                 \<lparr>status = Returned (int_of_size_t actual_out_len), out_buffer = out',
                  events = [Ctx_init, Ctx_seal, Ctx_cleanup]\<rparr>))"
  unfolding seal_skeleton_def args_invalid_def by auto

lemma open_skeleton_valid:
  "\<not> args_invalid A inp key nonce nonce_len out \<Longrightarrow>
   open_skeleton A tag_len m1 m2 inp in_len key nonce nonce_len aad aad_len out
     = (if in_len < tag_len
        then \<lparr>status = Returned (- 2), out_buffer = out, events = []\<rparr>
        else
        case EVP_AEAD_CTX_init A key 32 tag_len of
          Crashed \<Rightarrow> \<lparr>status = Undefined, out_buffer = out, events = [Ctx_init]\<rparr>
        | Zero \<Rightarrow>
            \<lparr>status = Returned (- 1), out_buffer = out,
             events = [Ctx_init, Stderr m1, Ctx_cleanup]\<rparr>
        | One ctx \<Rightarrow>
            (case EVP_AEAD_CTX_open A ctx out in_len nonce 12 inp in_len aad aad_len of
               Crashed \<Rightarrow>
                 \<lparr>status = Undefined, out_buffer = out, events = [Ctx_init, Ctx_open]\<rparr>
             | Zero \<Rightarrow>
                 \<lparr>status = Returned (- 2), out_buffer = cleared out in_len,
                  events = [Ctx_init, Ctx_open, Stderr m2, Ctx_cleanup]\<rparr>
             | One (out', actual_out_len) \<Rightarrow>
                 \<lparr>status = Returned (int_of_size_t actual_out_len), out_buffer = out',
                  events = [Ctx_init, Ctx_open, Ctx_cleanup]\<rparr>))"
  unfolding open_skeleton_def args_invalid_def by auto

section \<open>Memory regions and the integer cast\<close>

lemma region_zero: "region p 0 = Some []"
  by (simp add: region_def)

lemma region_length: "region p n = Some bs \<Longrightarrow> length bs = unat n"
  by (auto simp: region_def split: if_splits option.splits)

lemma int_of_size_t_of_nat: "n < 2 ^ 31 \<Longrightarrow> int_of_size_t (of_nat n) = int n"
  unfolding int_of_size_t_def
  apply (simp add: sint_uint)
  apply (simp add: unsigned_ucast_eq unsigned_of_nat take_bit_nat_eq_self
      signed_take_bit_int_eq_self take_bit_int_eq_self)
  done

section \<open>Evaluating the stand-in library\<close>

lemma xor_sum_append: "xor_sum (xs @ ys) = xor_sum xs XOR xor_sum ys"
  by (induction xs) (simp_all add: xor_sum_def xor.assoc)

lemma xor_sum_zeros: "xor_sum (replicate n 0) = 0"
  by (induction n) (simp_all add: xor_sum_def)

lemma xor_sum_Cons: "xor_sum (x # xs) = x XOR xor_sum xs"
  by (simp add: xor_sum_def)

lemma xor_sum_Nil: "xor_sum [] = 0"
  by (simp add: xor_sum_def)

lemmas stand_in_eval = stand_in_library_def stand_in_aead_def init_failing_library_def
  seal_failing_library_def stand_in_tag_def
  EVP_AEAD_CTX_init_def EVP_AEAD_CTX_seal_def EVP_AEAD_CTX_open_def error_path_def
  cleared_def region_def store_def
  xor_sum_append xor_sum_zeros xor_sum_Cons xor_sum_Nil int_of_size_t_def Let_def

section \<open>Context release\<close>

lemma seal_skeleton_released:
  "status (seal_skeleton A tag_len m1 m2 inp in_len key nonce nonce_len aad aad_len out) \<noteq> Undefined
   \<Longrightarrow> released_exactly_once
         (events (seal_skeleton A tag_len m1 m2 inp in_len key nonce nonce_len aad aad_len out))"
  by (cases "args_invalid A inp key nonce nonce_len out")
     (auto simp: seal_skeleton_invalid seal_skeleton_valid released_exactly_once_def
           split: call.splits prod.splits)

lemma open_skeleton_released:
  "status (open_skeleton A tag_len m1 m2 inp in_len key nonce nonce_len aad aad_len out) \<noteq> Undefined
   \<Longrightarrow> released_exactly_once
         (events (open_skeleton A tag_len m1 m2 inp in_len key nonce nonce_len aad aad_len out))"
  by (cases "args_invalid A inp key nonce nonce_len out")
     (auto simp: open_skeleton_invalid open_skeleton_valid released_exactly_once_def
           split: call.splits prod.splits if_splits)

text \<open>
  Claim C8. In every execution of each of the four functions that returns, the context is
  released exactly once: when \<open>EVP_AEAD_CTX_init\<close> was called (successfully or not), it
  was called once and first, and \<open>EVP_AEAD_CTX_cleanup\<close> was called once and last, after
  a successful seal or open, after a failed one and after a failed initialisation alike;
  a call rejected by validation touches no context. The context is a local of the call:
  the result of a call has no context in it.
\<close>

theorem context_released_on_every_path:
  "(status (encrypt_aes_gcm_256 L inp in_len key nonce nonce_len aad aad_len out) \<noteq> Undefined
      \<longrightarrow> released_exactly_once
            (events (encrypt_aes_gcm_256 L inp in_len key nonce nonce_len aad aad_len out)))
   \<and> (status (decrypt_aes_gcm_256 L inp in_len key nonce nonce_len aad aad_len out) \<noteq> Undefined
      \<longrightarrow> released_exactly_once
            (events (decrypt_aes_gcm_256 L inp in_len key nonce nonce_len aad aad_len out)))
   \<and> (status (encrypt_chacha20_poly1305 L inp in_len key nonce nonce_len aad aad_len out) \<noteq> Undefined
      \<longrightarrow> released_exactly_once
            (events (encrypt_chacha20_poly1305 L inp in_len key nonce nonce_len aad aad_len out)))
   \<and> (status (decrypt_chacha20_poly1305 L inp in_len key nonce nonce_len aad aad_len out) \<noteq> Undefined
      \<longrightarrow> released_exactly_once
            (events (decrypt_chacha20_poly1305 L inp in_len key nonce nonce_len aad aad_len out)))"
  unfolding skeletons
  by (intro conjI impI seal_skeleton_released open_skeleton_released)

theorem context_released_on_every_path_witness:
  "status (encrypt_aes_gcm_256 stand_in_library (Some [104, 101, 108, 108, 111]) 5
       (Some (replicate 32 0)) (Some (replicate 12 0)) 12 None 0 (Some (replicate 21 0)))
     = Returned 21
   \<and> released_exactly_once
       (events (encrypt_aes_gcm_256 stand_in_library (Some [104, 101, 108, 108, 111]) 5
         (Some (replicate 32 0)) (Some (replicate 12 0)) 12 None 0 (Some (replicate 21 0))))
   \<and> status (decrypt_chacha20_poly1305 stand_in_library (Some [1, 2, 3, 4, 5]) 5
       (Some (replicate 32 0)) (Some (replicate 12 0)) 12 None 0 (Some (replicate 5 0)))
     = Returned (- 2)
   \<and> released_exactly_once
       (events (decrypt_chacha20_poly1305 stand_in_library (Some [1, 2, 3, 4, 5]) 5
         (Some (replicate 32 0)) (Some (replicate 12 0)) 12 None 0 (Some (replicate 5 0))))"
proof -
  have a: "status (encrypt_aes_gcm_256 stand_in_library (Some [104, 101, 108, 108, 111]) 5
       (Some (replicate 32 0)) (Some (replicate 12 0)) 12 None 0 (Some (replicate 21 0)))
     = Returned 21"
    by (simp add: encrypt_aes_gcm_256_def stand_in_eval)
  have b: "status (decrypt_chacha20_poly1305 stand_in_library (Some [1, 2, 3, 4, 5]) 5
       (Some (replicate 32 0)) (Some (replicate 12 0)) 12 None 0 (Some (replicate 5 0)))
     = Returned (- 2)"
    by (simp add: decrypt_chacha20_poly1305_def stand_in_eval)
  show ?thesis
    using a b
      context_released_on_every_path [of stand_in_library "Some [104, 101, 108, 108, 111]" 5
        "Some (replicate 32 0)" "Some (replicate 12 0)" 12 None 0 "Some (replicate 21 0)"]
      context_released_on_every_path [of stand_in_library "Some [1, 2, 3, 4, 5]" 5
        "Some (replicate 32 0)" "Some (replicate 12 0)" 12 None 0 "Some (replicate 5 0)"]
    by simp
qed

section \<open>Nonce-length validation\<close>

text \<open>
  Claim C5. Each of the four functions, called with a nonce length other than 12, returns
  \<open>-1\<close>, leaves the output buffer as it was and makes no call on an algorithm context,
  whatever the other arguments are (null or not).
\<close>

theorem nonce_length_validation:
  assumes "nonce_len \<noteq> 12"
  shows "encrypt_aes_gcm_256 L inp in_len key nonce nonce_len aad aad_len out
           = \<lparr>status = Returned (- 1), out_buffer = out, events = []\<rparr>
       \<and> decrypt_aes_gcm_256 L inp in_len key nonce nonce_len aad aad_len out
           = \<lparr>status = Returned (- 1), out_buffer = out, events = []\<rparr>
       \<and> encrypt_chacha20_poly1305 L inp in_len key nonce nonce_len aad aad_len out
           = \<lparr>status = Returned (- 1), out_buffer = out, events = []\<rparr>
       \<and> decrypt_chacha20_poly1305 L inp in_len key nonce nonce_len aad aad_len out
           = \<lparr>status = Returned (- 1), out_buffer = out, events = []\<rparr>"
  unfolding skeletons using assms
  by (simp add: seal_skeleton_invalid open_skeleton_invalid args_invalid_def)

theorem nonce_length_validation_witness:
  "encrypt_aes_gcm_256 stand_in_library (Some [104, 101, 108, 108, 111]) 5
       (Some (replicate 32 0)) (Some (replicate 16 0)) 16 None 0 (Some (replicate 21 0))
     = \<lparr>status = Returned (- 1), out_buffer = Some (replicate 21 0), events = []\<rparr>
   \<and> decrypt_aes_gcm_256 stand_in_library (Some [104, 101, 108, 108, 111]) 5
       (Some (replicate 32 0)) (Some (replicate 16 0)) 16 None 0 (Some (replicate 21 0))
     = \<lparr>status = Returned (- 1), out_buffer = Some (replicate 21 0), events = []\<rparr>
   \<and> encrypt_chacha20_poly1305 stand_in_library (Some [104, 101, 108, 108, 111]) 5
       (Some (replicate 32 0)) (Some (replicate 16 0)) 16 None 0 (Some (replicate 21 0))
     = \<lparr>status = Returned (- 1), out_buffer = Some (replicate 21 0), events = []\<rparr>
   \<and> decrypt_chacha20_poly1305 stand_in_library (Some [104, 101, 108, 108, 111]) 5
       (Some (replicate 32 0)) (Some (replicate 16 0)) 16 None 0 (Some (replicate 21 0))
     = \<lparr>status = Returned (- 1), out_buffer = Some (replicate 21 0), events = []\<rparr>"
proof -
  have h: "(16 :: size_t) \<noteq> 12" by simp
  show ?thesis by (rule nonce_length_validation [OF h])
qed

section \<open>Validation precedence in decrypt\<close>

text \<open>
  Claim C9. A decrypt call, for either algorithm, that has a null required pointer or a
  nonce length other than 12, and an input shorter than 16 bytes, returns \<open>-1\<close> (not
  \<open>-2\<close>) and touches no context: the pointer and length checks come before the
  short-input check.
\<close>

theorem decrypt_validation_precedes_short_input:
  assumes "ciphertext_tag = None \<or> key = None \<or> nonce = None \<or> out_plaintext = None
           \<or> nonce_len \<noteq> 12"
      and "ciphertext_tag_len < 16"
  shows "decrypt_aes_gcm_256 L ciphertext_tag ciphertext_tag_len key nonce nonce_len
             aad aad_len out_plaintext
           = \<lparr>status = Returned (- 1), out_buffer = out_plaintext, events = []\<rparr>
       \<and> decrypt_chacha20_poly1305 L ciphertext_tag ciphertext_tag_len key nonce nonce_len
             aad aad_len out_plaintext
           = \<lparr>status = Returned (- 1), out_buffer = out_plaintext, events = []\<rparr>"
proof -
  have "args_invalid A ciphertext_tag key nonce nonce_len out_plaintext" for A :: "'a EVP_AEAD"
    using assms(1) unfolding args_invalid_def by blast
  then show ?thesis
    unfolding skeletons by (simp add: open_skeleton_invalid)
qed

theorem decrypt_validation_precedes_short_input_witness:
  "decrypt_aes_gcm_256 stand_in_library (Some [1, 2, 3]) 3 (Some (replicate 32 0))
       (Some (replicate 8 0)) 8 None 0 (Some [])
     = \<lparr>status = Returned (- 1), out_buffer = Some [], events = []\<rparr>
   \<and> decrypt_chacha20_poly1305 stand_in_library (Some [1, 2, 3]) 3 (Some (replicate 32 0))
       (Some (replicate 8 0)) 8 None 0 (Some [])
     = \<lparr>status = Returned (- 1), out_buffer = Some [], events = []\<rparr>
   \<and> decrypt_aes_gcm_256 stand_in_library (Some [1, 2, 3]) 3 None
       (Some (replicate 12 0)) 12 None 0 (Some [])
     = \<lparr>status = Returned (- 1), out_buffer = Some [], events = []\<rparr>
   \<and> decrypt_chacha20_poly1305 stand_in_library (Some [1, 2, 3]) 3 None
       (Some (replicate 12 0)) 12 None 0 (Some [])
     = \<lparr>status = Returned (- 1), out_buffer = Some [], events = []\<rparr>"
proof -
  have a: "Some [1, 2, 3 :: byte] = None \<or> Some (replicate 32 (0 :: byte)) = None
           \<or> Some (replicate 8 (0 :: byte)) = None \<or> Some ([] :: byte list) = None
           \<or> (8 :: size_t) \<noteq> 12" by simp
  have b: "Some [1, 2, 3 :: byte] = None \<or> (None :: ptr) = None
           \<or> Some (replicate 12 (0 :: byte)) = None \<or> Some ([] :: byte list) = None
           \<or> (12 :: size_t) \<noteq> 12" by simp
  have c: "(3 :: size_t) < 16" by simp
  show ?thesis
    using decrypt_validation_precedes_short_input [OF a c, of stand_in_library None 0]
          decrypt_validation_precedes_short_input [OF b c, of stand_in_library None 0]
    by simp
qed

section \<open>The short-input guard\<close>

text \<open>
  Claim C4. The guard at lines 128 and 247 compares the input length with
  \<open>EVP_AEAD_DEFAULT_TAG_LENGTH\<close>, not with the tag length 16. With the header's value 0
  the comparison is never true: a 5-byte input, all checks passed, goes on to
  \<open>EVP_AEAD_CTX_init\<close> and \<open>EVP_AEAD_CTX_open\<close>, and \<open>-2\<close> comes from the rejected open,
  not from the guard.
\<close>

theorem short_input_reaches_the_primitive:
  "decrypt_aes_gcm_256 stand_in_library (Some [1, 2, 3, 4, 5]) 5
       (Some (replicate 32 0)) (Some (replicate 12 0)) 12 None 0 (Some (replicate 5 0))
     = \<lparr>status = Returned (- 2), out_buffer = Some (replicate 5 0),
        events = [Ctx_init, Ctx_open, Stderr ''EVP_AEAD_CTX_open (AES)'', Ctx_cleanup]\<rparr>
   \<and> decrypt_chacha20_poly1305 stand_in_library (Some [1, 2, 3, 4, 5]) 5
       (Some (replicate 32 0)) (Some (replicate 12 0)) 12 None 0 (Some (replicate 5 0))
     = \<lparr>status = Returned (- 2), out_buffer = Some (replicate 5 0),
        events = [Ctx_init, Ctx_open, Stderr ''EVP_AEAD_CTX_open (ChaCha)'', Ctx_cleanup]\<rparr>"
  by (simp add: decrypt_aes_gcm_256_def decrypt_chacha20_poly1305_def stand_in_eval)

text \<open>
  This does not depend on the stand-in library: with the macro at 0, no decrypt call
  that passes the argument checks stops at the guard, whatever its input length.
\<close>

lemma short_input_guard_never_fires:
  assumes "EVP_AEAD_DEFAULT_TAG_LENGTH L = 0"
  shows "(\<not> args_invalid (EVP_aead_aes_256_gcm L) ciphertext_tag key nonce nonce_len out_plaintext
            \<longrightarrow> Ctx_init \<in> set (events (decrypt_aes_gcm_256 L ciphertext_tag ciphertext_tag_len
                  key nonce nonce_len aad aad_len out_plaintext)))
       \<and> (\<not> args_invalid (EVP_aead_chacha20_poly1305 L) ciphertext_tag key nonce nonce_len out_plaintext
            \<longrightarrow> Ctx_init \<in> set (events (decrypt_chacha20_poly1305 L ciphertext_tag ciphertext_tag_len
                  key nonce nonce_len aad aad_len out_plaintext)))"
  unfolding skeletons assms
  by (simp add: open_skeleton_valid split: call.split prod.split)

text \<open>
  What the guard does for any value of the macro: an input shorter than the macro's value
  is answered with \<open>-2\<close> before any call on a context.
\<close>

lemma short_input_guard:
  assumes "\<not> args_invalid (EVP_aead_aes_256_gcm L) ciphertext_tag key nonce nonce_len out_plaintext"
      and "\<not> args_invalid (EVP_aead_chacha20_poly1305 L) ciphertext_tag key nonce nonce_len out_plaintext"
      and "ciphertext_tag_len < EVP_AEAD_DEFAULT_TAG_LENGTH L"
  shows "decrypt_aes_gcm_256 L ciphertext_tag ciphertext_tag_len key nonce nonce_len
             aad aad_len out_plaintext
           = \<lparr>status = Returned (- 2), out_buffer = out_plaintext, events = []\<rparr>
       \<and> decrypt_chacha20_poly1305 L ciphertext_tag ciphertext_tag_len key nonce nonce_len
             aad aad_len out_plaintext
           = \<lparr>status = Returned (- 2), out_buffer = out_plaintext, events = []\<rparr>"
  unfolding skeletons using assms by (simp add: open_skeleton_valid)

section \<open>Encrypt failures share one sentinel\<close>

lemma seal_skeleton_sentinel:
  assumes "args_invalid A inp key nonce nonce_len out
           \<or> EVP_AEAD_CTX_init A key (EVP_AEAD_key_length A) tag_len = Zero
           \<or> (\<exists>ctx. EVP_AEAD_CTX_init A key (EVP_AEAD_key_length A) tag_len = One ctx
                 \<and> EVP_AEAD_CTX_seal A ctx out (in_len + EVP_AEAD_max_overhead A)
                       nonce nonce_len inp in_len aad aad_len = Zero)"
  shows "status (seal_skeleton A tag_len m1 m2 inp in_len key nonce nonce_len aad aad_len out)
           = Returned (- 1)"
proof (cases "args_invalid A inp key nonce nonce_len out")
  case True
  then show ?thesis by (simp add: seal_skeleton_invalid)
next
  case False
  then have k: "EVP_AEAD_key_length A = 32" and n: "nonce_len = 12"
    by (simp_all add: args_invalid_def)
  from assms False show ?thesis
    by (auto simp: seal_skeleton_valid k n)
qed

text \<open>
  Claim C7. For both algorithms, an encrypt call whose \<open>EVP_AEAD_CTX_init\<close> returns 0, or
  whose \<open>EVP_AEAD_CTX_seal\<close> returns 0, returns \<open>-1\<close>, the value it also returns when the
  argument checks fail: the return value does not tell the three apart.
\<close>

theorem encrypt_sentinel_collapse:
  "(args_invalid (EVP_aead_aes_256_gcm L) plaintext key nonce nonce_len out
      \<or> EVP_AEAD_CTX_init (EVP_aead_aes_256_gcm L) key
           (EVP_AEAD_key_length (EVP_aead_aes_256_gcm L)) (EVP_AEAD_DEFAULT_TAG_LENGTH L) = Zero
      \<or> (\<exists>ctx. EVP_AEAD_CTX_init (EVP_aead_aes_256_gcm L) key
                  (EVP_AEAD_key_length (EVP_aead_aes_256_gcm L)) (EVP_AEAD_DEFAULT_TAG_LENGTH L)
                = One ctx
              \<and> EVP_AEAD_CTX_seal (EVP_aead_aes_256_gcm L) ctx out
                  (plaintext_len + EVP_AEAD_max_overhead (EVP_aead_aes_256_gcm L))
                  nonce nonce_len plaintext plaintext_len aad aad_len = Zero)
    \<longrightarrow> status (encrypt_aes_gcm_256 L plaintext plaintext_len key nonce nonce_len aad aad_len out)
          = Returned (- 1))
   \<and> (args_invalid (EVP_aead_chacha20_poly1305 L) plaintext key nonce nonce_len out
      \<or> EVP_AEAD_CTX_init (EVP_aead_chacha20_poly1305 L) key
           (EVP_AEAD_key_length (EVP_aead_chacha20_poly1305 L)) (EVP_AEAD_DEFAULT_TAG_LENGTH L) = Zero
      \<or> (\<exists>ctx. EVP_AEAD_CTX_init (EVP_aead_chacha20_poly1305 L) key
                  (EVP_AEAD_key_length (EVP_aead_chacha20_poly1305 L)) (EVP_AEAD_DEFAULT_TAG_LENGTH L)
                = One ctx
              \<and> EVP_AEAD_CTX_seal (EVP_aead_chacha20_poly1305 L) ctx out
                  (plaintext_len + EVP_AEAD_max_overhead (EVP_aead_chacha20_poly1305 L))
                  nonce nonce_len plaintext plaintext_len aad aad_len = Zero)
    \<longrightarrow> status (encrypt_chacha20_poly1305 L plaintext plaintext_len key nonce nonce_len aad aad_len out)
          = Returned (- 1))"
  unfolding skeletons
  by (intro conjI impI seal_skeleton_sentinel)

theorem encrypt_sentinel_collapse_witness:
  "encrypt_aes_gcm_256 stand_in_library (Some [104, 101, 108, 108, 111]) 5
       (Some (replicate 32 0)) None 12 None 0 (Some (replicate 21 0))
     = \<lparr>status = Returned (- 1), out_buffer = Some (replicate 21 0), events = []\<rparr>
   \<and> encrypt_aes_gcm_256 init_failing_library (Some [104, 101, 108, 108, 111]) 5
       (Some (replicate 32 0)) (Some (replicate 12 0)) 12 None 0 (Some (replicate 21 0))
     = \<lparr>status = Returned (- 1), out_buffer = Some (replicate 21 0),
        events = [Ctx_init, Stderr ''EVP_AEAD_CTX_init (encrypt AES)'', Ctx_cleanup]\<rparr>
   \<and> encrypt_chacha20_poly1305 seal_failing_library (Some [104, 101, 108, 108, 111]) 5
       (Some (replicate 32 0)) (Some (replicate 12 0)) 12 None 0 (Some (replicate 21 0))
     = \<lparr>status = Returned (- 1), out_buffer = Some (replicate 21 0),
        events = [Ctx_init, Ctx_seal, Stderr ''EVP_AEAD_CTX_seal (ChaCha)'', Ctx_cleanup]\<rparr>"
proof -
  let ?p = "Some [104, 101, 108, 108, 111 :: byte]"
  let ?k = "Some (replicate 32 (0 :: byte))"
  let ?n = "Some (replicate 12 (0 :: byte))"
  let ?o = "Some (replicate 21 (0 :: byte))"
  have a: "args_invalid (EVP_aead_aes_256_gcm stand_in_library) ?p ?k None 12 ?o"
    by (simp add: args_invalid_def)
  have b: "EVP_AEAD_CTX_init (EVP_aead_aes_256_gcm init_failing_library) ?k
             (EVP_AEAD_key_length (EVP_aead_aes_256_gcm init_failing_library))
             (EVP_AEAD_DEFAULT_TAG_LENGTH init_failing_library) = Zero"
    by (simp add: stand_in_eval)
  have c: "\<exists>ctx. EVP_AEAD_CTX_init (EVP_aead_chacha20_poly1305 seal_failing_library) ?k
             (EVP_AEAD_key_length (EVP_aead_chacha20_poly1305 seal_failing_library))
             (EVP_AEAD_DEFAULT_TAG_LENGTH seal_failing_library) = One ctx
           \<and> EVP_AEAD_CTX_seal (EVP_aead_chacha20_poly1305 seal_failing_library) ctx ?o
               (5 + EVP_AEAD_max_overhead (EVP_aead_chacha20_poly1305 seal_failing_library))
               ?n 12 ?p 5 None 0 = Zero"
    by (simp add: stand_in_eval)
  have sa: "status (encrypt_aes_gcm_256 stand_in_library ?p 5 ?k None 12 None 0 ?o) = Returned (- 1)"
    using encrypt_sentinel_collapse [of stand_in_library ?p ?k None 12 ?o 5 None 0] a by blast
  have sb: "status (encrypt_aes_gcm_256 init_failing_library ?p 5 ?k ?n 12 None 0 ?o) = Returned (- 1)"
    using encrypt_sentinel_collapse [of init_failing_library ?p ?k ?n 12 ?o 5 None 0] b by blast
  have sc: "status (encrypt_chacha20_poly1305 seal_failing_library ?p 5 ?k ?n 12 None 0 ?o) = Returned (- 1)"
    using encrypt_sentinel_collapse [of seal_failing_library ?p ?k ?n 12 ?o 5 None 0] c by blast
  have ea: "out_buffer (encrypt_aes_gcm_256 stand_in_library ?p 5 ?k None 12 None 0 ?o) = ?o
          \<and> events (encrypt_aes_gcm_256 stand_in_library ?p 5 ?k None 12 None 0 ?o) = []"
    by (simp add: encrypt_aes_gcm_256_def stand_in_eval)
  have eb: "out_buffer (encrypt_aes_gcm_256 init_failing_library ?p 5 ?k ?n 12 None 0 ?o) = ?o
          \<and> events (encrypt_aes_gcm_256 init_failing_library ?p 5 ?k ?n 12 None 0 ?o)
              = [Ctx_init, Stderr ''EVP_AEAD_CTX_init (encrypt AES)'', Ctx_cleanup]"
    by (simp add: encrypt_aes_gcm_256_def stand_in_eval)
  have ec: "out_buffer (encrypt_chacha20_poly1305 seal_failing_library ?p 5 ?k ?n 12 None 0 ?o) = ?o
          \<and> events (encrypt_chacha20_poly1305 seal_failing_library ?p 5 ?k ?n 12 None 0 ?o)
              = [Ctx_init, Ctx_seal, Stderr ''EVP_AEAD_CTX_seal (ChaCha)'', Ctx_cleanup]"
    by (simp add: encrypt_chacha20_poly1305_def stand_in_eval)
  have r: "\<And>r :: result. r = \<lparr>status = status r, out_buffer = out_buffer r, events = events r\<rparr>"
    by simp
  show ?thesis
    using sa sb sc ea eb ec
    by (metis (full_types) r)
qed

section \<open>The associated-data pointer\<close>

lemma seal_null_aad:
  "EVP_AEAD_CTX_seal A ctx out m nonce nonce_len inp in_len None 0
     = EVP_AEAD_CTX_seal A ctx out m nonce nonce_len inp in_len (Some bs) 0"
  by (simp add: EVP_AEAD_CTX_seal_def region_zero cong: option.case_cong)

lemma open_null_aad:
  "EVP_AEAD_CTX_open A ctx out m nonce nonce_len inp in_len None 0
     = EVP_AEAD_CTX_open A ctx out m nonce nonce_len inp in_len (Some bs) 0"
  by (simp add: EVP_AEAD_CTX_open_def region_zero cong: option.case_cong)

lemma seal_skeleton_null_aad:
  "seal_skeleton A tag_len m1 m2 inp in_len key nonce nonce_len None 0 out
     = seal_skeleton A tag_len m1 m2 inp in_len key nonce nonce_len (Some bs) 0 out"
  by (simp only: seal_skeleton_def seal_null_aad [of _ _ _ _ _ _ _ _ bs] cong: if_cong call.case_cong)

lemma open_skeleton_null_aad:
  "open_skeleton A tag_len m1 m2 inp in_len key nonce nonce_len None 0 out
     = open_skeleton A tag_len m1 m2 inp in_len key nonce nonce_len (Some bs) 0 out"
  by (simp only: open_skeleton_def open_null_aad [of _ _ _ _ _ _ _ _ bs] cong: if_cong call.case_cong)

lemma seal_skeleton_reaches_init:
  "\<not> args_invalid A inp key nonce nonce_len out \<Longrightarrow>
   Ctx_init \<in> set (events (seal_skeleton A tag_len m1 m2 inp in_len key nonce nonce_len aad aad_len out))"
  by (simp add: seal_skeleton_valid split: call.split prod.split)

lemma open_skeleton_reaches_init:
  "\<not> args_invalid A inp key nonce nonce_len out \<Longrightarrow> \<not> in_len < tag_len \<Longrightarrow>
   Ctx_init \<in> set (events (open_skeleton A tag_len m1 m2 inp in_len key nonce nonce_len aad aad_len out))"
  by (simp add: open_skeleton_valid split: call.split prod.split)

text \<open>
  Claim C10. No function checks the \<open>aad\<close> pointer. With \<open>aad = NULL\<close> and any
  \<open>aad_len\<close>, a call whose other arguments pass the checks (and, for decrypt, whose input
  is not shorter than \<open>EVP_AEAD_DEFAULT_TAG_LENGTH\<close>) goes on to \<open>EVP_AEAD_CTX_init\<close>. With
  \<open>aad_len = 0\<close> the whole result (return value, output buffer, events) is the same for
  \<open>aad = NULL\<close> and for any non-null \<open>aad\<close>, whatever the other arguments.
\<close>

theorem aad_pointer_never_validated:
  "(\<not> args_invalid (EVP_aead_aes_256_gcm L) inp key nonce nonce_len out
      \<longrightarrow> Ctx_init \<in> set (events
            (encrypt_aes_gcm_256 L inp in_len key nonce nonce_len None aad_len out)))
   \<and> (\<not> args_invalid (EVP_aead_chacha20_poly1305 L) inp key nonce nonce_len out
      \<longrightarrow> Ctx_init \<in> set (events
            (encrypt_chacha20_poly1305 L inp in_len key nonce nonce_len None aad_len out)))
   \<and> (\<not> args_invalid (EVP_aead_aes_256_gcm L) inp key nonce nonce_len out
        \<and> \<not> in_len < EVP_AEAD_DEFAULT_TAG_LENGTH L
      \<longrightarrow> Ctx_init \<in> set (events
            (decrypt_aes_gcm_256 L inp in_len key nonce nonce_len None aad_len out)))
   \<and> (\<not> args_invalid (EVP_aead_chacha20_poly1305 L) inp key nonce nonce_len out
        \<and> \<not> in_len < EVP_AEAD_DEFAULT_TAG_LENGTH L
      \<longrightarrow> Ctx_init \<in> set (events
            (decrypt_chacha20_poly1305 L inp in_len key nonce nonce_len None aad_len out)))
   \<and> encrypt_aes_gcm_256 L inp in_len key nonce nonce_len None 0 out
       = encrypt_aes_gcm_256 L inp in_len key nonce nonce_len (Some bs) 0 out
   \<and> encrypt_chacha20_poly1305 L inp in_len key nonce nonce_len None 0 out
       = encrypt_chacha20_poly1305 L inp in_len key nonce nonce_len (Some bs) 0 out
   \<and> decrypt_aes_gcm_256 L inp in_len key nonce nonce_len None 0 out
       = decrypt_aes_gcm_256 L inp in_len key nonce nonce_len (Some bs) 0 out
   \<and> decrypt_chacha20_poly1305 L inp in_len key nonce nonce_len None 0 out
       = decrypt_chacha20_poly1305 L inp in_len key nonce nonce_len (Some bs) 0 out"
  unfolding skeletons
  by (intro conjI impI seal_skeleton_reaches_init open_skeleton_reaches_init
        seal_skeleton_null_aad open_skeleton_null_aad; (elim conjE)?; assumption)

theorem aad_pointer_never_validated_witness:
  "events (encrypt_aes_gcm_256 stand_in_library (Some [104, 101, 108, 108, 111]) 5
       (Some (replicate 32 0)) (Some (replicate 12 0)) 12 None 7 (Some (replicate 21 0)))
     = [Ctx_init, Ctx_seal]
   \<and> Ctx_init \<in> set (events (encrypt_aes_gcm_256 stand_in_library (Some [104, 101, 108, 108, 111]) 5
       (Some (replicate 32 0)) (Some (replicate 12 0)) 12 None 7 (Some (replicate 21 0))))
   \<and> Ctx_init \<in> set (events (decrypt_chacha20_poly1305 stand_in_library
       (Some ([104, 101, 108, 108, 111] @ replicate 16 98)) 21
       (Some (replicate 32 0)) (Some (replicate 12 0)) 12 None 7 (Some (replicate 5 0))))
   \<and> encrypt_aes_gcm_256 stand_in_library (Some [104, 101, 108, 108, 111]) 5
       (Some (replicate 32 0)) (Some (replicate 12 0)) 12 None 0 (Some (replicate 21 0))
     = \<lparr>status = Returned 21, out_buffer = Some ([104, 101, 108, 108, 111] @ replicate 16 98),
        events = [Ctx_init, Ctx_seal, Ctx_cleanup]\<rparr>
   \<and> encrypt_aes_gcm_256 stand_in_library (Some [104, 101, 108, 108, 111]) 5
       (Some (replicate 32 0)) (Some (replicate 12 0)) 12 (Some [9, 9, 9]) 0 (Some (replicate 21 0))
     = \<lparr>status = Returned 21, out_buffer = Some ([104, 101, 108, 108, 111] @ replicate 16 98),
        events = [Ctx_init, Ctx_seal, Ctx_cleanup]\<rparr>"
proof -
  let ?p = "Some [104, 101, 108, 108, 111 :: byte]"
  let ?c = "Some ([104, 101, 108, 108, 111 :: byte] @ replicate 16 98)"
  let ?k = "Some (replicate 32 (0 :: byte))"
  let ?n = "Some (replicate 12 (0 :: byte))"
  let ?o = "Some (replicate 21 (0 :: byte))"
  let ?o' = "Some (replicate 5 (0 :: byte))"
  have a: "\<not> args_invalid (EVP_aead_aes_256_gcm stand_in_library) ?p ?k ?n 12 ?o"
    by (simp add: args_invalid_def stand_in_library_def stand_in_aead_def)
  have b: "\<not> args_invalid (EVP_aead_chacha20_poly1305 stand_in_library) ?c ?k ?n 12 ?o'
           \<and> \<not> (21 :: size_t) < EVP_AEAD_DEFAULT_TAG_LENGTH stand_in_library"
    by (simp add: args_invalid_def stand_in_library_def stand_in_aead_def)
  have e: "events (encrypt_aes_gcm_256 stand_in_library ?p 5 ?k ?n 12 None 7 ?o) = [Ctx_init, Ctx_seal]"
    by (simp add: encrypt_aes_gcm_256_def stand_in_eval)
  have z: "encrypt_aes_gcm_256 stand_in_library ?p 5 ?k ?n 12 None 0 ?o
     = \<lparr>status = Returned 21, out_buffer = ?c, events = [Ctx_init, Ctx_seal, Ctx_cleanup]\<rparr>"
    by (simp add: encrypt_aes_gcm_256_def stand_in_eval)
  show ?thesis
    using a b e z
      aad_pointer_never_validated [of stand_in_library ?p ?k ?n 12 ?o 5 7 "[9, 9, 9]"]
      aad_pointer_never_validated [of stand_in_library ?c ?k ?n 12 ?o' 21 7 "[9, 9, 9]"]
      aad_pointer_never_validated [of stand_in_library ?p ?k ?n 12 ?o 5 0 "[9, 9, 9]"]
    by simp
qed

section \<open>More on regions and stores\<close>

lemma unat_of_nat_size_t: "n < 2 ^ 64 \<Longrightarrow> unat (of_nat n :: size_t) = n"
  by (simp add: unat_of_nat)

lemma region_prefix:
  assumes "n \<le> length bs" and "n < 2 ^ 64"
  shows "region (Some bs) (of_nat n) = Some (take n bs)"
proof (cases "n = 0")
  case True
  then show ?thesis by (simp add: region_def)
next
  case False
  with assms(2) have "(of_nat n :: size_t) \<noteq> 0"
    by (metis unat_of_nat_size_t unat_0)
  with assms show ?thesis
    by (simp add: region_def unat_of_nat_size_t)
qed

lemma region_exact: "length bs < 2 ^ 64 \<Longrightarrow> region (Some bs) (of_nat (length bs)) = Some bs"
  using region_prefix [of "length bs" bs] by simp

lemma store_fits:
  "length bs \<le> length buf \<Longrightarrow> store (Some buf) bs = Some (Some (bs @ drop (length bs) buf))"
  by (simp add: store_def)

section \<open>The stand-in library meets the assumptions on the library\<close>

lemma stand_in_init_accepts: "init_accepts stand_in_aead 0"
  by (simp add: init_accepts_def stand_in_aead_def)

lemma stand_in_seal_accepts_input:
  assumes "length p + 16 < 2 ^ 64"
  shows "seal_accepts_input stand_in_aead n p a"
proof -
  from assms have p: "length p < 2 ^ 64" by simp
  have m: "unat (of_nat (length p) + 16 :: size_t) = length p + 16"
    using unat_of_nat_size_t [OF assms] by simp
  show ?thesis
    by (simp add: seal_accepts_input_def stand_in_aead_def m unat_of_nat_size_t [OF p])
qed

lemma stand_in_seal_length_law: "seal_length_law stand_in_aead"
  by (auto simp: seal_length_law_def stand_in_aead_def stand_in_tag_def split: if_splits)

lemma stand_in_open_length_law: "open_length_law stand_in_aead"
  by (auto simp: open_length_law_def stand_in_aead_def split: if_splits)

lemma stand_in_open_inverts_seal: "open_inverts_seal stand_in_aead"
  unfolding open_inverts_seal_def
proof (intro allI impI, elim conjE)
  fix ctx :: "byte list" and m m' :: size_t and n p a ct :: "byte list"
  assume s: "aead_seal stand_in_aead ctx m n p a = Some ct" and r: "length p \<le> unat m'"
  from s have ct: "ct = p @ stand_in_tag ctx n a p" and l: "length p + 16 \<le> unat m"
    by (simp_all add: stand_in_aead_def split: if_splits)
  have "unat m < 2 ^ 64" using unsigned_less [of m] by simp
  with l have "length p + 16 < 2 ^ 64" by simp
  then have "unat (of_nat (length p + 16) :: size_t) = length p + 16"
    by (rule unat_of_nat_size_t)
  then have u: "unat (of_nat (length p) + 16 :: size_t) = length p + 16" by simp
  have lc: "length ct = length p + 16" by (simp add: ct stand_in_tag_def)
  show "\<not> open_refuses stand_in_aead m' (of_nat (length n)) (of_nat (length ct))
            (of_nat (length a))
        \<and> aead_open stand_in_aead ctx m' n ct a = Some p"
    using r by (simp add: stand_in_aead_def lc u) (simp add: ct stand_in_tag_def)
qed

lemma stand_in_contract: "aead_contract stand_in_aead 0"
  by (simp add: aead_contract_def stand_in_init_accepts
        stand_in_seal_length_law stand_in_open_inverts_seal)
     (simp add: stand_in_aead_def)

lemma stand_in_library_contract:
  "aead_contract (EVP_aead_aes_256_gcm stand_in_library) (EVP_AEAD_DEFAULT_TAG_LENGTH stand_in_library)"
  "aead_contract (EVP_aead_chacha20_poly1305 stand_in_library) (EVP_AEAD_DEFAULT_TAG_LENGTH stand_in_library)"
  "EVP_AEAD_DEFAULT_TAG_LENGTH stand_in_library \<le> 16"
  by (simp_all add: stand_in_library_def stand_in_contract)

lemma xor_sum_update:
  "j < length xs \<Longrightarrow> xor_sum (xs[j := xs ! j XOR d]) = xor_sum xs XOR d"
proof (induction xs arbitrary: j)
  case Nil
  then show ?case by simp
next
  case (Cons x xs)
  show ?case
  proof (cases j)
    case 0
    then show ?thesis by (simp add: xor_sum_Cons ac_simps)
  next
    case (Suc j')
    with Cons show ?thesis by (simp add: xor_sum_Cons ac_simps)
  qed
qed

lemma bit_mask_nonzero: "push_bit (i mod 8) (1 :: byte) \<noteq> 0"
  by (simp add: push_bit_eq_mult)

lemma xor_sum_flip:
  assumes "single_bit_flip xs ys"
  shows "length ys = length xs \<and> (\<exists>d. d \<noteq> 0 \<and> xor_sum ys = xor_sum xs XOR d)"
proof -
  from assms obtain i where i: "i < 8 * length xs" and ys: "ys = flip_bit_at xs i"
    unfolding single_bit_flip_def by blast
  from i have j: "i div 8 < length xs" by simp
  have "xor_sum ys = xor_sum xs XOR push_bit (i mod 8) 1"
    unfolding ys flip_bit_at_def by (rule xor_sum_update [OF j])
  moreover have "length ys = length xs" by (simp add: ys flip_bit_at_def)
  ultimately show ?thesis using bit_mask_nonzero by blast
qed

lemma xor_nonzero_neq: "d \<noteq> 0 \<Longrightarrow> (x :: byte) XOR d \<noteq> x"
proof
  assume d: "d \<noteq> 0" and "x XOR d = x"
  then have "x XOR (x XOR d) = x XOR x" by simp
  then have "d = 0" by (simp flip: xor.assoc)
  with d show False by simp
qed

lemma single_bit_flip_neq: "single_bit_flip xs ys \<Longrightarrow> ys \<noteq> xs"
  using xor_sum_flip [of xs ys] xor_nonzero_neq by metis

lemma sub_div8:
  assumes "\<not> i div 8 < (n :: nat)"
  shows "(i - 8 * n) div 8 = i div 8 - n" and "(i - 8 * n) mod 8 = i mod 8"
proof -
  from assms have "n * 8 \<le> i" by (simp add: less_eq_div_iff_mult_less_eq not_less)
  then obtain r where i: "i = r + 8 * n"
    by (metis le_add_diff_inverse2 mult.commute)
  show "(i - 8 * n) div 8 = i div 8 - n" by (simp add: i)
  show "(i - 8 * n) mod 8 = i mod 8" by (simp add: i)
qed

lemma flip_bit_at_append:
  "flip_bit_at (xs @ ys) i =
     (if i div 8 < length xs then flip_bit_at xs i @ ys
      else xs @ flip_bit_at ys (i - 8 * length xs))"
  by (simp add: flip_bit_at_def list_update_append nth_append sub_div8)

lemma single_bit_flip_append:
  assumes "single_bit_flip (xs @ ys) zs"
  shows "(\<exists>xs'. single_bit_flip xs xs' \<and> zs = xs' @ ys)
       \<or> (\<exists>ys'. single_bit_flip ys ys' \<and> zs = xs @ ys')"
proof -
  from assms obtain i where i: "i < 8 * length (xs @ ys)" and zs: "zs = flip_bit_at (xs @ ys) i"
    unfolding single_bit_flip_def by blast
  show ?thesis
  proof (cases "i div 8 < length xs")
    case True
    then have "i < 8 * length xs" by simp
    with True zs show ?thesis
      unfolding single_bit_flip_def by (auto simp: flip_bit_at_append)
  next
    case False
    then have "length xs * 8 \<le> i" by (simp add: less_eq_div_iff_mult_less_eq not_less)
    with i have "i - 8 * length xs < 8 * length ys" by simp
    with False zs show ?thesis
      unfolding single_bit_flip_def by (auto simp: flip_bit_at_append)
  qed
qed

lemma replicate16_neq: "d \<noteq> 0 \<Longrightarrow> replicate 16 ((x :: byte) XOR d) \<noteq> replicate 16 x"
  using xor_nonzero_neq [of d x] by simp

lemma stand_in_tag_tampered:
  assumes "single_bit_flip k k' \<and> n' = n \<and> a' = a \<and> p' = p
         \<or> k' = k \<and> single_bit_flip n n' \<and> a' = a \<and> p' = p
         \<or> k' = k \<and> n' = n \<and> single_bit_flip a a' \<and> p' = p
         \<or> k' = k \<and> n' = n \<and> a' = a \<and> single_bit_flip p p'"
  shows "stand_in_tag k' n' a' p' \<noteq> stand_in_tag k n a p"
proof -
  have "\<exists>d. d \<noteq> 0 \<and> xor_sum (k' @ n' @ a' @ p') = xor_sum (k @ n @ a @ p) XOR d"
    using assms
  proof (elim disjE conjE)
    assume "single_bit_flip k k'" "n' = n" "a' = a" "p' = p"
    with xor_sum_flip [of k k'] show ?thesis
      by (auto simp: xor_sum_append ac_simps)
  next
    assume "k' = k" "single_bit_flip n n'" "a' = a" "p' = p"
    with xor_sum_flip [of n n'] show ?thesis
      by (auto simp: xor_sum_append ac_simps)
  next
    assume "k' = k" "n' = n" "single_bit_flip a a'" "p' = p"
    with xor_sum_flip [of a a'] show ?thesis
      by (auto simp: xor_sum_append ac_simps)
  next
    assume "k' = k" "n' = n" "a' = a" "single_bit_flip p p'"
    with xor_sum_flip [of p p'] show ?thesis
      by (auto simp: xor_sum_append ac_simps)
  qed
  then obtain d where "d \<noteq> 0" "xor_sum (k' @ n' @ a' @ p') = xor_sum (k @ n @ a @ p) XOR d"
    by blast
  then show ?thesis
    unfolding stand_in_tag_def using replicate16_neq by simp
qed

lemma stand_in_open_rejects_tampered: "open_rejects_tampered stand_in_aead 0"
  unfolding open_rejects_tampered_def
proof (intro allI impI, elim conjE)
  fix k ctx :: "byte list" and m n p a c k' and ctx' :: "byte list" and m' n' a' c'
  assume i: "aead_init stand_in_aead k 0 = Some ctx"
    and s: "aead_seal stand_in_aead ctx m n p a = Some c"
    and t: "tampered c k n a c' k' n' a'"
    and i': "aead_init stand_in_aead k' 0 = Some ctx'"
  from i have ctx: "ctx = k" by (simp add: stand_in_aead_def split: if_splits)
  from i' have ctx': "ctx' = k'" by (simp add: stand_in_aead_def split: if_splits)
  from s have c: "c = p @ stand_in_tag k n a p"
    by (simp add: stand_in_aead_def ctx split: if_splits)
  have lt: "length (stand_in_tag x y z w) = 16" for x y z w
    by (simp add: stand_in_tag_def)
  have "\<exists>p' t'. c' = p' @ t' \<and> length t' = 16 \<and> t' \<noteq> stand_in_tag k' n' a' p'"
  proof -
    from t consider
        (ct) "single_bit_flip c c'" "k' = k" "n' = n" "a' = a"
      | (other) "c' = c" "single_bit_flip k k' \<and> n' = n \<and> a' = a \<and> p = p
         \<or> k' = k \<and> single_bit_flip n n' \<and> a' = a \<and> p = p
         \<or> k' = k \<and> n' = n \<and> single_bit_flip a a' \<and> p = p"
      unfolding tampered_def by blast
    then show ?thesis
    proof cases
      case ct
      from single_bit_flip_append [OF ct(1) [unfolded c]] show ?thesis
      proof (elim disjE exE conjE)
        fix p' assume f: "single_bit_flip p p'" and e: "c' = p' @ stand_in_tag k n a p"
        have "stand_in_tag k' n' a' p' \<noteq> stand_in_tag k n a p"
          by (rule stand_in_tag_tampered) (simp add: ct f)
        with e lt show ?thesis by metis
      next
        fix t' assume f: "single_bit_flip (stand_in_tag k n a p) t'" and e: "c' = p @ t'"
        from single_bit_flip_neq [OF f] have "t' \<noteq> stand_in_tag k' n' a' p"
          by (simp add: ct)
        moreover from xor_sum_flip [OF f] have "length t' = 16" by (simp add: lt)
        ultimately show ?thesis using e by blast
      qed
    next
      case other
      have "stand_in_tag k' n' a' p \<noteq> stand_in_tag k n a p"
        by (rule stand_in_tag_tampered) (use other(2) in blast)
      with other(1) c lt show ?thesis by metis
    qed
  qed
  then obtain p' t' where e: "c' = p' @ t'" and l: "length t' = 16"
    and ne: "t' \<noteq> stand_in_tag k' n' a' p'" by blast
  show "aead_open stand_in_aead ctx' m' n' c' a' = None"
    using ne by (simp add: stand_in_aead_def ctx' e l)
qed

lemma stand_in_library_tamper_contract:
  "init_accepts (EVP_aead_aes_256_gcm stand_in_library) (EVP_AEAD_DEFAULT_TAG_LENGTH stand_in_library)"
  "seal_length_law (EVP_aead_aes_256_gcm stand_in_library)"
  "open_rejects_tampered (EVP_aead_aes_256_gcm stand_in_library) (EVP_AEAD_DEFAULT_TAG_LENGTH stand_in_library)"
  "init_accepts (EVP_aead_chacha20_poly1305 stand_in_library) (EVP_AEAD_DEFAULT_TAG_LENGTH stand_in_library)"
  "seal_length_law (EVP_aead_chacha20_poly1305 stand_in_library)"
  "open_rejects_tampered (EVP_aead_chacha20_poly1305 stand_in_library) (EVP_AEAD_DEFAULT_TAG_LENGTH stand_in_library)"
  by (simp_all add: stand_in_library_def stand_in_init_accepts stand_in_seal_length_law
        stand_in_open_rejects_tampered)

section \<open>The length law\<close>

lemma seal_call_One:
  assumes "EVP_AEAD_CTX_seal A ctx out m nonce nonce_len inp in_len ad ad_len = One (out', len)"
      and "seal_length_law A"
  shows "\<exists>k. len = of_nat k \<and> k = unat in_len + 16"
proof -
  from assms(1) obtain n p a ct where
    p: "region inp in_len = Some p" and s: "aead_seal A ctx m n p a = Some ct"
    and l: "len = of_nat (length ct)"
    by (auto simp: EVP_AEAD_CTX_seal_def error_path_def split: option.splits if_splits)
  from s assms(2) have "length ct = length p + 16"
    unfolding seal_length_law_def by blast
  with region_length [OF p] have "length ct = unat in_len + 16" by simp
  with l show ?thesis by (intro exI [of _ "length ct"] conjI)
qed

lemma open_call_One:
  assumes "EVP_AEAD_CTX_open A ctx out m nonce nonce_len inp in_len ad ad_len = One (out', len)"
      and "open_length_law A"
  shows "\<exists>k. len = of_nat k \<and> k + 16 = unat in_len"
proof -
  from assms(1) obtain n c a pt where
    c: "region inp in_len = Some c" and s: "aead_open A ctx m n c a = Some pt"
    and l: "len = of_nat (length pt)"
    by (auto simp: EVP_AEAD_CTX_open_def error_path_def split: option.splits if_splits)
  from s assms(2) have "length c = length pt + 16"
    unfolding open_length_law_def by blast
  with region_length [OF c] have "length pt + 16 = unat in_len" by simp
  with l show ?thesis by (intro exI [of _ "length pt"] conjI)
qed

lemma seal_skeleton_length:
  assumes "seal_length_law A"
      and "status (seal_skeleton A tag_len m1 m2 inp in_len key nonce nonce_len aad aad_len out)
             = Returned v"
      and "0 \<le> v"
      and "unat in_len + 16 < 2 ^ 31"
  shows "v = int (unat in_len) + 16"
proof (cases "args_invalid A inp key nonce nonce_len out")
  case True
  with assms(2,3) show ?thesis by (simp add: seal_skeleton_invalid)
next
  case False
  from assms(2,3) obtain ctx out' len where
    "EVP_AEAD_CTX_seal A ctx out (in_len + EVP_AEAD_max_overhead A) nonce 12 inp in_len aad aad_len
       = One (out', len)" and v: "v = int_of_size_t len"
    by (auto simp: seal_skeleton_valid [OF False] split: call.splits)
  from seal_call_One [OF this(1) assms(1)] obtain k where
    l: "len = of_nat k" and c: "k = unat in_len + 16" by blast
  from c assms(4) have lt: "k < 2 ^ 31" by simp
  have "int_of_size_t len = int k"
    unfolding l by (rule int_of_size_t_of_nat [OF lt])
  with v c show ?thesis by simp
qed

lemma open_skeleton_length:
  assumes "open_length_law A"
      and "status (open_skeleton A tag_len m1 m2 inp in_len key nonce nonce_len aad aad_len out)
             = Returned v"
      and "0 \<le> v"
      and "unat in_len < 2 ^ 31 + 16"
  shows "v = int (unat in_len) - 16"
proof (cases "args_invalid A inp key nonce nonce_len out")
  case True
  with assms(2,3) show ?thesis by (simp add: open_skeleton_invalid)
next
  case False
  from assms(2,3) obtain ctx out' len where
    "EVP_AEAD_CTX_open A ctx out in_len nonce 12 inp in_len aad aad_len = One (out', len)"
    and v: "v = int_of_size_t len"
    by (auto simp: open_skeleton_valid [OF False] split: call.splits if_splits)
  from open_call_One [OF this(1) assms(1)] obtain k where
    l: "len = of_nat k" and c: "k + 16 = unat in_len" by blast
  from c assms(4) have lt: "k < 2 ^ 31" by simp
  have "int_of_size_t len = int k"
    unfolding l by (rule int_of_size_t_of_nat [OF lt])
  with v c show ?thesis by (simp flip: c)
qed

text \<open>
  Claim C2, amended. Given a library whose seal writes input length plus 16 bytes and
  whose open writes input length minus 16 bytes: whenever encrypt returns a non-negative
  value and \<open>plaintext_len + 16\<close> is below \<open>2^31\<close>, the value is \<open>plaintext_len + 16\<close>;
  whenever decrypt returns a non-negative value and \<open>ciphertext_tag_len - 16\<close> is below
  \<open>2^31\<close>, the value is \<open>ciphertext_tag_len - 16\<close>. The bound is that of the \<open>int\<close>
  the length is returned in.
\<close>

theorem length_law_within_int_range:
  "(seal_length_law (EVP_aead_aes_256_gcm L)
      \<and> status (encrypt_aes_gcm_256 L plaintext len key nonce nonce_len aad aad_len out) = Returned v
      \<and> 0 \<le> v \<and> unat len + 16 < 2 ^ 31
    \<longrightarrow> v = int (unat len) + 16)
   \<and> (seal_length_law (EVP_aead_chacha20_poly1305 L)
      \<and> status (encrypt_chacha20_poly1305 L plaintext len key nonce nonce_len aad aad_len out) = Returned v
      \<and> 0 \<le> v \<and> unat len + 16 < 2 ^ 31
    \<longrightarrow> v = int (unat len) + 16)
   \<and> (open_length_law (EVP_aead_aes_256_gcm L)
      \<and> status (decrypt_aes_gcm_256 L ciphertext_tag len key nonce nonce_len aad aad_len out) = Returned v
      \<and> 0 \<le> v \<and> unat len < 2 ^ 31 + 16
    \<longrightarrow> v = int (unat len) - 16)
   \<and> (open_length_law (EVP_aead_chacha20_poly1305 L)
      \<and> status (decrypt_chacha20_poly1305 L ciphertext_tag len key nonce nonce_len aad aad_len out) = Returned v
      \<and> 0 \<le> v \<and> unat len < 2 ^ 31 + 16
    \<longrightarrow> v = int (unat len) - 16)"
  unfolding skeletons
  by (intro conjI impI; elim conjE;
      (rule seal_skeleton_length | rule open_skeleton_length); assumption)

theorem length_law_within_int_range_witness:
  "status (encrypt_aes_gcm_256 stand_in_library (Some [104, 101, 108, 108, 111]) 5
       (Some (replicate 32 0)) (Some (replicate 12 0)) 12 None 0 (Some (replicate 21 0)))
     = Returned 21
   \<and> (21 :: int) = int (unat (5 :: size_t)) + 16
   \<and> status (decrypt_chacha20_poly1305 stand_in_library
       (Some ([104, 101, 108, 108, 111] @ replicate 16 98)) 21
       (Some (replicate 32 0)) (Some (replicate 12 0)) 12 None 0 (Some (replicate 5 0)))
     = Returned 5
   \<and> (5 :: int) = int (unat (21 :: size_t)) - 16"
proof -
  let ?p = "Some [104, 101, 108, 108, 111 :: byte]"
  let ?c = "Some ([104, 101, 108, 108, 111 :: byte] @ replicate 16 98)"
  let ?k = "Some (replicate 32 (0 :: byte))"
  let ?n = "Some (replicate 12 (0 :: byte))"
  have s: "seal_length_law (EVP_aead_aes_256_gcm stand_in_library)"
    by (simp add: stand_in_library_def stand_in_seal_length_law)
  have o: "open_length_law (EVP_aead_chacha20_poly1305 stand_in_library)"
    by (simp add: stand_in_library_def stand_in_open_length_law)
  have a: "status (encrypt_aes_gcm_256 stand_in_library ?p 5 ?k ?n 12 None 0
             (Some (replicate 21 0))) = Returned 21"
    by (simp add: encrypt_aes_gcm_256_def stand_in_eval)
  have b: "status (decrypt_chacha20_poly1305 stand_in_library ?c 21 ?k ?n 12 None 0
             (Some (replicate 5 0))) = Returned 5"
    by (simp add: decrypt_chacha20_poly1305_def stand_in_eval)
  have h1: "(0 :: int) \<le> 21" "unat (5 :: size_t) + 16 < 2 ^ 31" by simp_all
  have h2: "(0 :: int) \<le> 5" "unat (21 :: size_t) < 2 ^ 31 + 16" by simp_all
  have e: "(21 :: int) = int (unat (5 :: size_t)) + 16"
    using length_law_within_int_range [of stand_in_library ?p 5 ?k ?n 12 None 0
        "Some (replicate 21 0)" 21 ?c] s a h1
    by blast
  have d: "(5 :: int) = int (unat (21 :: size_t)) - 16"
    using length_law_within_int_range [of stand_in_library ?c 21 ?k ?n 12 None 0
        "Some (replicate 5 0)" 5 ?c] o b h2
    by blast
  show ?thesis by (intro conjI a b e d)
qed

text \<open>
  Claim C2 as stated, with no upper bound, fails: the cast \<open>(int)actual_out_len\<close> at
  lines 85 and 206 keeps the low 32 bits. For a plaintext of \<open>2^32 - 16\<close> bytes the seal
  succeeds, \<open>2^32\<close> bytes are written, and both encrypt functions return 0.
\<close>

theorem length_law_counterexample:
  "seal_length_law (EVP_aead_aes_256_gcm stand_in_library)
   \<and> seal_length_law (EVP_aead_chacha20_poly1305 stand_in_library)
   \<and> status (encrypt_aes_gcm_256 stand_in_library (Some (replicate 4294967280 0)) 4294967280
        (Some (replicate 32 0)) (Some (replicate 12 0)) 12 None 0
        (Some (replicate 4294967296 0))) = Returned 0
   \<and> events (encrypt_aes_gcm_256 stand_in_library (Some (replicate 4294967280 0)) 4294967280
        (Some (replicate 32 0)) (Some (replicate 12 0)) 12 None 0
        (Some (replicate 4294967296 0))) = [Ctx_init, Ctx_seal, Ctx_cleanup]
   \<and> status (encrypt_chacha20_poly1305 stand_in_library (Some (replicate 4294967280 0)) 4294967280
        (Some (replicate 32 0)) (Some (replicate 12 0)) 12 None 0
        (Some (replicate 4294967296 0))) = Returned 0
   \<and> events (encrypt_chacha20_poly1305 stand_in_library (Some (replicate 4294967280 0)) 4294967280
        (Some (replicate 32 0)) (Some (replicate 12 0)) 12 None 0
        (Some (replicate 4294967296 0))) = [Ctx_init, Ctx_seal, Ctx_cleanup]
   \<and> (0 :: int) \<noteq> int (unat (4294967280 :: size_t)) + 16"
proof -
  have a: "seal_length_law (EVP_aead_aes_256_gcm stand_in_library)"
          "seal_length_law (EVP_aead_chacha20_poly1305 stand_in_library)"
    by (simp_all add: stand_in_library_def stand_in_seal_length_law)
  have b: "status (encrypt_aes_gcm_256 stand_in_library (Some (replicate 4294967280 0)) 4294967280
        (Some (replicate 32 0)) (Some (replicate 12 0)) 12 None 0
        (Some (replicate 4294967296 0))) = Returned 0"
    by (simp add: encrypt_aes_gcm_256_def stand_in_eval)
  have b': "events (encrypt_aes_gcm_256 stand_in_library (Some (replicate 4294967280 0)) 4294967280
        (Some (replicate 32 0)) (Some (replicate 12 0)) 12 None 0
        (Some (replicate 4294967296 0))) = [Ctx_init, Ctx_seal, Ctx_cleanup]"
    by (simp add: encrypt_aes_gcm_256_def stand_in_eval)
  have c: "status (encrypt_chacha20_poly1305 stand_in_library (Some (replicate 4294967280 0)) 4294967280
        (Some (replicate 32 0)) (Some (replicate 12 0)) 12 None 0
        (Some (replicate 4294967296 0))) = Returned 0"
    by (simp add: encrypt_chacha20_poly1305_def stand_in_eval)
  have c': "events (encrypt_chacha20_poly1305 stand_in_library (Some (replicate 4294967280 0)) 4294967280
        (Some (replicate 32 0)) (Some (replicate 12 0)) 12 None 0
        (Some (replicate 4294967296 0))) = [Ctx_init, Ctx_seal, Ctx_cleanup]"
    by (simp add: encrypt_chacha20_poly1305_def stand_in_eval)
  have d: "(0 :: int) \<noteq> int (unat (4294967280 :: size_t)) + 16" by simp
  show ?thesis
    by (intro conjI a b b' c c' d)
qed

section \<open>The decrypt failure taxonomy\<close>

lemma init_call_not_Zero:
  assumes "init_accepts A tag_len"
  shows "EVP_AEAD_CTX_init A key 32 tag_len \<noteq> Zero"
proof
  assume z: "EVP_AEAD_CTX_init A key 32 tag_len = Zero"
  then obtain kb where r: "region key 32 = Some kb" and n: "aead_init A kb tag_len = None"
    by (auto simp: EVP_AEAD_CTX_init_def split: option.splits)
  from region_length [OF r] have "length kb = 32" by simp
  with assms n show False unfolding init_accepts_def by blast
qed

lemma open_skeleton_taxonomy:
  assumes init: "init_accepts A tag_len"
      and ol: "open_length_law A"
      and tl: "tag_len \<le> 16"
      and b: "unat in_len < 2 ^ 31 + 16"
      and nu: "status (open_skeleton A tag_len m1 m2 inp in_len key nonce nonce_len aad aad_len
                 out) \<noteq> Undefined"
  shows "((status (open_skeleton A tag_len m1 m2 inp in_len key nonce nonce_len aad aad_len out)
            = Returned (- 1))
         \<longleftrightarrow> args_invalid A inp key nonce nonce_len out)
       \<and> ((status (open_skeleton A tag_len m1 m2 inp in_len key nonce nonce_len aad aad_len out)
            = Returned (- 2))
         \<longleftrightarrow> (\<not> args_invalid A inp key nonce nonce_len out
              \<and> (in_len < 16
                  \<or> (\<exists>ctx. EVP_AEAD_CTX_init A key (EVP_AEAD_key_length A) tag_len = One ctx
                        \<and> EVP_AEAD_CTX_open A ctx out in_len nonce nonce_len inp in_len
                              aad aad_len = Zero))))"
proof (cases "args_invalid A inp key nonce nonce_len out")
  case True
  then show ?thesis by (simp add: open_skeleton_invalid)
next
  case valid: False
  then have k: "EVP_AEAD_key_length A = 32" and n: "nonce_len = 12"
    by (simp_all add: args_invalid_def)
  show ?thesis
  proof (cases "in_len < tag_len")
    case True
    with tl have "in_len < 16" by simp
    with valid True show ?thesis by (simp add: open_skeleton_valid)
  next
    case long: False
    show ?thesis
    proof (cases "EVP_AEAD_CTX_init A key 32 tag_len")
      case Crashed
      with valid long nu show ?thesis by (simp add: open_skeleton_valid k n)
    next
      case Zero
      with init_call_not_Zero [OF init] show ?thesis by blast
    next
      case (One ctx)
      note ci = this
      show ?thesis
      proof (cases "EVP_AEAD_CTX_open A ctx out in_len nonce 12 inp in_len aad aad_len")
        case Crashed
        with valid long ci nu show ?thesis by (simp add: open_skeleton_valid k n)
      next
        case Zero
        with valid long ci show ?thesis by (simp add: open_skeleton_valid k n)
      next
        case (One w)
        obtain out' len where w: "w = (out', len)" by (cases w)
        from open_call_One [OF One [unfolded w] ol] obtain j where
          l: "len = of_nat j" and c: "j + 16 = unat in_len" by blast
        from c b have lt: "j < 2 ^ 31" by simp
        have "int_of_size_t len = int j"
          unfolding l by (rule int_of_size_t_of_nat [OF lt])
        then have pos: "0 \<le> int_of_size_t len" by simp
        from c have "\<not> unat in_len < 16" by simp
        then have "\<not> in_len < 16" by (simp add: word_less_nat_alt)
        with valid long ci One w pos show ?thesis
          by (simp add: open_skeleton_valid k n)
      qed
    qed
  qed
qed

text \<open>
  Claim C6, amended. For both algorithms, for every decrypt call that returns and whose
  input is below \<open>2^31 + 16\<close> bytes, given a library whose context initialisation accepts
  every 32-byte key, whose open writes input length minus 16 bytes and whose macro
  \<open>EVP_AEAD_DEFAULT_TAG_LENGTH\<close> is at most 16: decrypt returns \<open>-1\<close> exactly when a
  required pointer is null, the algorithm's key length is not 32 or the nonce length is
  not 12; and it returns \<open>-2\<close> exactly when these checks passed and either the input is
  shorter than 16 bytes or the context was initialised and \<open>EVP_AEAD_CTX_open\<close> returns 0.
\<close>

theorem decrypt_failure_taxonomy:
  assumes "init_accepts (EVP_aead_aes_256_gcm L) (EVP_AEAD_DEFAULT_TAG_LENGTH L)"
      and "init_accepts (EVP_aead_chacha20_poly1305 L) (EVP_AEAD_DEFAULT_TAG_LENGTH L)"
      and "open_length_law (EVP_aead_aes_256_gcm L)"
      and "open_length_law (EVP_aead_chacha20_poly1305 L)"
      and "EVP_AEAD_DEFAULT_TAG_LENGTH L \<le> 16"
      and "unat ciphertext_tag_len < 2 ^ 31 + 16"
      and "status (decrypt_aes_gcm_256 L ciphertext_tag ciphertext_tag_len key nonce nonce_len
             aad aad_len out) \<noteq> Undefined"
      and "status (decrypt_chacha20_poly1305 L ciphertext_tag ciphertext_tag_len key nonce nonce_len
             aad aad_len out) \<noteq> Undefined"
  shows
   "((status (decrypt_aes_gcm_256 L ciphertext_tag ciphertext_tag_len key nonce nonce_len
                aad aad_len out) = Returned (- 1))
      \<longleftrightarrow> args_invalid (EVP_aead_aes_256_gcm L) ciphertext_tag key nonce nonce_len out)
    \<and> ((status (decrypt_aes_gcm_256 L ciphertext_tag ciphertext_tag_len key nonce nonce_len
                aad aad_len out) = Returned (- 2))
      \<longleftrightarrow> (\<not> args_invalid (EVP_aead_aes_256_gcm L) ciphertext_tag key nonce nonce_len out
           \<and> (ciphertext_tag_len < 16
               \<or> (\<exists>ctx. EVP_AEAD_CTX_init (EVP_aead_aes_256_gcm L) key
                            (EVP_AEAD_key_length (EVP_aead_aes_256_gcm L))
                            (EVP_AEAD_DEFAULT_TAG_LENGTH L) = One ctx
                     \<and> EVP_AEAD_CTX_open (EVP_aead_aes_256_gcm L) ctx out ciphertext_tag_len
                            nonce nonce_len ciphertext_tag ciphertext_tag_len aad aad_len
                          = Zero))))
    \<and> ((status (decrypt_chacha20_poly1305 L ciphertext_tag ciphertext_tag_len key nonce nonce_len
                aad aad_len out) = Returned (- 1))
      \<longleftrightarrow> args_invalid (EVP_aead_chacha20_poly1305 L) ciphertext_tag key nonce nonce_len out)
    \<and> ((status (decrypt_chacha20_poly1305 L ciphertext_tag ciphertext_tag_len key nonce nonce_len
                aad aad_len out) = Returned (- 2))
      \<longleftrightarrow> (\<not> args_invalid (EVP_aead_chacha20_poly1305 L) ciphertext_tag key nonce nonce_len out
           \<and> (ciphertext_tag_len < 16
               \<or> (\<exists>ctx. EVP_AEAD_CTX_init (EVP_aead_chacha20_poly1305 L) key
                            (EVP_AEAD_key_length (EVP_aead_chacha20_poly1305 L))
                            (EVP_AEAD_DEFAULT_TAG_LENGTH L) = One ctx
                     \<and> EVP_AEAD_CTX_open (EVP_aead_chacha20_poly1305 L) ctx out ciphertext_tag_len
                            nonce nonce_len ciphertext_tag ciphertext_tag_len aad aad_len
                          = Zero))))"
proof -
  note a = open_skeleton_taxonomy [OF assms(1) assms(3) assms(5) assms(6)
      assms(7) [unfolded decrypt_aes_gcm_256_skeleton],
      folded decrypt_aes_gcm_256_skeleton]
  note b = open_skeleton_taxonomy [OF assms(2) assms(4) assms(5) assms(6)
      assms(8) [unfolded decrypt_chacha20_poly1305_skeleton],
      folded decrypt_chacha20_poly1305_skeleton]
  show ?thesis by (rule conjI [OF conjunct1 [OF a] conjI [OF conjunct2 [OF a] b]])
qed

theorem decrypt_failure_taxonomy_witness:
  "status (decrypt_aes_gcm_256 stand_in_library (Some [1, 2, 3, 4, 5]) 5
       (Some (replicate 32 0)) (Some (replicate 12 0)) 12 None 0 (Some (replicate 5 0)))
     = Returned (- 2)
   \<and> (5 :: size_t) < 16
   \<and> (\<exists>ctx. EVP_AEAD_CTX_init (EVP_aead_aes_256_gcm stand_in_library) (Some (replicate 32 0))
               (EVP_AEAD_key_length (EVP_aead_aes_256_gcm stand_in_library))
               (EVP_AEAD_DEFAULT_TAG_LENGTH stand_in_library) = One ctx
            \<and> EVP_AEAD_CTX_open (EVP_aead_aes_256_gcm stand_in_library) ctx
               (Some (replicate 5 0)) 5 (Some (replicate 12 0)) 12 (Some [1, 2, 3, 4, 5]) 5 None 0
              = Zero)
   \<and> status (decrypt_chacha20_poly1305 stand_in_library (Some [1, 2, 3, 4, 5]) 5
       (Some (replicate 32 0)) None 12 None 0 (Some (replicate 5 0)))
     = Returned (- 1)"
proof -
  let ?c = "Some [1, 2, 3, 4, 5 :: byte]"
  let ?k = "Some (replicate 32 (0 :: byte))"
  let ?n = "Some (replicate 12 (0 :: byte))"
  let ?o = "Some (replicate 5 (0 :: byte))"
  have c: "init_accepts (EVP_aead_aes_256_gcm stand_in_library)
             (EVP_AEAD_DEFAULT_TAG_LENGTH stand_in_library)"
          "init_accepts (EVP_aead_chacha20_poly1305 stand_in_library)
             (EVP_AEAD_DEFAULT_TAG_LENGTH stand_in_library)"
          "open_length_law (EVP_aead_aes_256_gcm stand_in_library)"
          "open_length_law (EVP_aead_chacha20_poly1305 stand_in_library)"
          "EVP_AEAD_DEFAULT_TAG_LENGTH stand_in_library \<le> 16"
    by (simp_all add: stand_in_library_def stand_in_init_accepts stand_in_open_length_law)
  have b: "unat (5 :: size_t) < 2 ^ 31 + 16" by simp
  have s1: "status (decrypt_aes_gcm_256 stand_in_library ?c 5 ?k ?n 12 None 0 ?o) = Returned (- 2)"
    by (simp add: decrypt_aes_gcm_256_def stand_in_eval)
  have s2: "status (decrypt_chacha20_poly1305 stand_in_library ?c 5 ?k ?n 12 None 0 ?o)
              = Returned (- 2)"
    by (simp add: decrypt_chacha20_poly1305_def stand_in_eval)
  have s3: "status (decrypt_aes_gcm_256 stand_in_library ?c 5 ?k None 12 None 0 ?o) = Returned (- 1)"
    by (simp add: decrypt_aes_gcm_256_def)
  have s4: "status (decrypt_chacha20_poly1305 stand_in_library ?c 5 ?k None 12 None 0 ?o)
              = Returned (- 1)"
    by (simp add: decrypt_chacha20_poly1305_def)
  have u: "Returned (- 2) \<noteq> Undefined" "Returned (- 1) \<noteq> Undefined" by simp_all
  have i: "args_invalid (EVP_aead_chacha20_poly1305 stand_in_library) ?c ?k None 12 ?o"
    by (simp add: args_invalid_def)
  have g: "\<not> (\<exists>ctx. EVP_AEAD_CTX_init (EVP_aead_aes_256_gcm stand_in_library) ?k
               (EVP_AEAD_key_length (EVP_aead_aes_256_gcm stand_in_library))
               (EVP_AEAD_DEFAULT_TAG_LENGTH stand_in_library) = One ctx
            \<and> EVP_AEAD_CTX_open (EVP_aead_aes_256_gcm stand_in_library) ctx
               ?o 5 ?n 12 ?c 5 None 0 = Zero) \<Longrightarrow> False"
    by (simp add: stand_in_eval)
  note T2 = decrypt_failure_taxonomy [OF c b u(2) [folded s3] u(2) [folded s4]]
  from T2 i have
    "status (decrypt_chacha20_poly1305 stand_in_library ?c 5 ?k None 12 None 0 ?o) = Returned (- 1)"
    by blast
  moreover have "(5 :: size_t) < 16" by simp
  ultimately show ?thesis using s1 g by blast
qed

text \<open>
  Claim C6 as stated fails in two ways. A decrypt of \<open>2^32 + 15\<close> bytes with valid
  arguments opens successfully, writes \<open>2^32 - 1\<close> bytes and returns \<open>-1\<close>, through the
  cast to \<open>int\<close>: \<open>-1\<close> without any pointer or length misuse. And a 3-byte input with a
  nonce length of 8 returns \<open>-1\<close>, not \<open>-2\<close>: an input shorter than 16 bytes gives \<open>-2\<close>
  only when the argument checks passed.
\<close>

theorem decrypt_failure_taxonomy_counterexample:
  "status (decrypt_aes_gcm_256 stand_in_library (Some (replicate 4294967311 0)) 4294967311
       (Some (replicate 32 0)) (Some (replicate 12 0)) 12 (Some []) 0
       (Some (replicate 4294967295 0))) = Returned (- 1)
   \<and> events (decrypt_aes_gcm_256 stand_in_library (Some (replicate 4294967311 0)) 4294967311
       (Some (replicate 32 0)) (Some (replicate 12 0)) 12 (Some []) 0
       (Some (replicate 4294967295 0))) = [Ctx_init, Ctx_open, Ctx_cleanup]
   \<and> status (decrypt_chacha20_poly1305 stand_in_library (Some (replicate 4294967311 0)) 4294967311
       (Some (replicate 32 0)) (Some (replicate 12 0)) 12 (Some []) 0
       (Some (replicate 4294967295 0))) = Returned (- 1)
   \<and> events (decrypt_chacha20_poly1305 stand_in_library (Some (replicate 4294967311 0)) 4294967311
       (Some (replicate 32 0)) (Some (replicate 12 0)) 12 (Some []) 0
       (Some (replicate 4294967295 0))) = [Ctx_init, Ctx_open, Ctx_cleanup]
   \<and> EVP_AEAD_key_length (EVP_aead_aes_256_gcm stand_in_library) = 32
   \<and> EVP_AEAD_key_length (EVP_aead_chacha20_poly1305 stand_in_library) = 32
   \<and> status (decrypt_aes_gcm_256 stand_in_library (Some [1, 2, 3]) 3
       (Some (replicate 32 0)) (Some (replicate 8 0)) 8 (Some []) 0 (Some [])) = Returned (- 1)
   \<and> status (decrypt_chacha20_poly1305 stand_in_library (Some [1, 2, 3]) 3
       (Some (replicate 32 0)) (Some (replicate 8 0)) 8 (Some []) 0 (Some [])) = Returned (- 1)"
proof -
  have a: "status (decrypt_aes_gcm_256 stand_in_library (Some (replicate 4294967311 0)) 4294967311
       (Some (replicate 32 0)) (Some (replicate 12 0)) 12 (Some []) 0
       (Some (replicate 4294967295 0))) = Returned (- 1)"
    by (simp add: decrypt_aes_gcm_256_def stand_in_eval)
  have a': "events (decrypt_aes_gcm_256 stand_in_library (Some (replicate 4294967311 0)) 4294967311
       (Some (replicate 32 0)) (Some (replicate 12 0)) 12 (Some []) 0
       (Some (replicate 4294967295 0))) = [Ctx_init, Ctx_open, Ctx_cleanup]"
    by (simp add: decrypt_aes_gcm_256_def stand_in_eval)
  have b: "status (decrypt_chacha20_poly1305 stand_in_library (Some (replicate 4294967311 0)) 4294967311
       (Some (replicate 32 0)) (Some (replicate 12 0)) 12 (Some []) 0
       (Some (replicate 4294967295 0))) = Returned (- 1)"
    by (simp add: decrypt_chacha20_poly1305_def stand_in_eval)
  have b': "events (decrypt_chacha20_poly1305 stand_in_library (Some (replicate 4294967311 0)) 4294967311
       (Some (replicate 32 0)) (Some (replicate 12 0)) 12 (Some []) 0
       (Some (replicate 4294967295 0))) = [Ctx_init, Ctx_open, Ctx_cleanup]"
    by (simp add: decrypt_chacha20_poly1305_def stand_in_eval)
  have k: "EVP_AEAD_key_length (EVP_aead_aes_256_gcm stand_in_library) = 32"
          "EVP_AEAD_key_length (EVP_aead_chacha20_poly1305 stand_in_library) = 32"
    by (simp_all add: stand_in_library_def stand_in_aead_def)
  have c: "status (decrypt_aes_gcm_256 stand_in_library (Some [1, 2, 3]) 3
       (Some (replicate 32 0)) (Some (replicate 8 0)) 8 (Some []) 0 (Some [])) = Returned (- 1)"
    by (simp add: decrypt_aes_gcm_256_def stand_in_eval)
  have d: "status (decrypt_chacha20_poly1305 stand_in_library (Some [1, 2, 3]) 3
       (Some (replicate 32 0)) (Some (replicate 8 0)) 8 (Some []) 0 (Some [])) = Returned (- 1)"
    by (simp add: decrypt_chacha20_poly1305_def stand_in_eval)
  show ?thesis by (intro conjI a a' b b' k c d)
qed

section \<open>Round trip\<close>

lemma roundtrip_skeleton:
  assumes init: "init_accepts A tag_len"
      and sacc: "seal_accepts_input A n p a"
      and slen: "seal_length_law A"
      and inv: "open_inverts_seal A"
      and kl: "EVP_AEAD_key_length A = 32"
      and ov: "EVP_AEAD_max_overhead A = 16"
      and tl: "tag_len \<le> 16"
      and k: "length k = 32"
      and n: "length n = 12"
      and a: "length a < 2 ^ 64"
      and p: "length p + 16 < 2 ^ 64"
      and ob: "length p + 16 \<le> length ob"
  shows "\<exists>ct. length ct = length p + 16
           \<and> seal_skeleton A tag_len m1 m2 (Some p) (of_nat (length p)) (Some k) (Some n) 12
                 (Some a) (of_nat (length a)) (Some ob)
               = \<lparr>status = Returned (int_of_size_t (of_nat (length p + 16))),
                  out_buffer = Some (ct @ drop (length p + 16) ob),
                  events = [Ctx_init, Ctx_seal, Ctx_cleanup]\<rparr>
           \<and> (\<forall>ob2. length p \<le> length ob2 \<longrightarrow>
                open_skeleton A tag_len m3 m4 (Some (ct @ drop (length p + 16) ob))
                    (of_nat (length p + 16)) (Some k) (Some n) 12
                    (Some a) (of_nat (length a)) (Some ob2)
                  = \<lparr>status = Returned (int_of_size_t (of_nat (length p))),
                     out_buffer = Some (p @ drop (length p) ob2),
                     events = [Ctx_init, Ctx_open, Ctx_cleanup]\<rparr>)"
proof -
  from init k obtain ctx where ctx: "aead_init A k tag_len = Some ctx"
    unfolding init_accepts_def by blast
  have rk: "region (Some k) 32 = Some k"
    using region_exact [of k] k by simp
  have rn: "region (Some n) 12 = Some n"
    using region_exact [of n] n by simp
  have ra: "region (Some a) (of_nat (length a)) = Some a"
    by (rule region_exact [OF a])
  from p have p': "length p < 2 ^ 64" by simp
  have rp: "region (Some p) (of_nat (length p)) = Some p"
    by (rule region_exact [OF p'])
  have ci: "EVP_AEAD_CTX_init A (Some k) 32 tag_len = One ctx"
    by (simp add: EVP_AEAD_CTX_init_def rk ctx)
  have nl: "(of_nat (length n) :: size_t) = 12" by (simp add: n)
  from sacc have
    nr: "\<not> seal_refuses A (of_nat (length p) + 16) 12 (of_nat (length p)) (of_nat (length a))"
    and ac: "aead_seal A ctx (of_nat (length p) + 16) n p a \<noteq> None"
    unfolding seal_accepts_input_def ov nl by simp_all
  from ac obtain ct where ct: "aead_seal A ctx (of_nat (length p) + 16) n p a = Some ct"
    by blast
  from slen ct have lct: "length ct = length p + 16"
    unfolding seal_length_law_def by blast
  have st: "store (Some ob) ct = Some (Some (ct @ drop (length p + 16) ob))"
    using store_fits [of ct ob] ob lct by simp
  have cs: "EVP_AEAD_CTX_seal A ctx (Some ob) (of_nat (length p) + 16) (Some n) 12
              (Some p) (of_nat (length p)) (Some a) (of_nat (length a))
            = One (Some (ct @ drop (length p + 16) ob), of_nat (length p + 16))"
    by (simp add: EVP_AEAD_CTX_seal_def nr rn rp ra ct st lct)
  have valid: "\<not> args_invalid A (Some x) (Some k) (Some n) 12 (Some y)" for x y
    by (simp add: args_invalid_def kl)
  have enc: "seal_skeleton A tag_len m1 m2 (Some p) (of_nat (length p)) (Some k) (Some n) 12
                 (Some a) (of_nat (length a)) (Some ob)
               = \<lparr>status = Returned (int_of_size_t (of_nat (length p + 16))),
                  out_buffer = Some (ct @ drop (length p + 16) ob),
                  events = [Ctx_init, Ctx_seal, Ctx_cleanup]\<rparr>"
    by (simp add: seal_skeleton_valid [OF valid] ci ov cs)
  have dec: "open_skeleton A tag_len m3 m4 (Some (ct @ drop (length p + 16) ob))
                    (of_nat (length p + 16)) (Some k) (Some n) 12
                    (Some a) (of_nat (length a)) (Some ob2)
                  = \<lparr>status = Returned (int_of_size_t (of_nat (length p))),
                     out_buffer = Some (p @ drop (length p) ob2),
                     events = [Ctx_init, Ctx_open, Ctx_cleanup]\<rparr>"
    if ob2: "length p \<le> length ob2" for ob2
  proof -
    have rc: "region (Some (ct @ drop (length p + 16) ob)) (of_nat (length p + 16)) = Some ct"
      using region_prefix [of "length p + 16" "ct @ drop (length p + 16) ob"] p lct by simp
    have u: "unat (of_nat (length p + 16) :: size_t) = length p + 16"
      by (rule unat_of_nat_size_t [OF p])
    have "unat tag_len \<le> 16" using tl by (simp add: word_le_nat_alt)
    with u have long: "\<not> (of_nat (length p + 16) :: size_t) < tag_len"
      by (simp add: word_less_nat_alt)
    have room: "length p \<le> unat (of_nat (length p + 16) :: size_t)"
      unfolding u by simp
    from inv ct room have
      "\<not> open_refuses A (of_nat (length p + 16)) (of_nat (length n)) (of_nat (length ct))
           (of_nat (length a))
       \<and> aead_open A ctx (of_nat (length p + 16)) n ct a = Some p"
      unfolding open_inverts_seal_def by blast
    then have
      nr2: "\<not> open_refuses A (of_nat (length p + 16)) 12 (of_nat (length p + 16))
              (of_nat (length a))"
      and op: "aead_open A ctx (of_nat (length p + 16)) n ct a = Some p"
      unfolding nl lct by blast+
    have st2: "store (Some ob2) p = Some (Some (p @ drop (length p) ob2))"
      by (rule store_fits [OF ob2])
    have co: "EVP_AEAD_CTX_open A ctx (Some ob2) (of_nat (length p + 16)) (Some n) 12
                (Some (ct @ drop (length p + 16) ob)) (of_nat (length p + 16))
                (Some a) (of_nat (length a))
              = One (Some (p @ drop (length p) ob2), of_nat (length p))"
      by (simp only: EVP_AEAD_CTX_open_def nr2 if_False rn rc ra op st2 option.case)
    show ?thesis
      by (simp only: open_skeleton_valid [OF valid] long if_False ci co call.case prod.case)
  qed
  from lct enc dec show ?thesis by blast
qed

lemma roundtrip_skeleton_result:
  assumes c: "aead_contract A tag_len"
      and tl: "tag_len \<le> 16"
      and sa: "seal_accepts_input A n p a"
      and k: "length k = 32"
      and n: "length n = 12"
      and a: "length a < 2 ^ 64"
      and p: "length p + 16 < 2 ^ 64"
      and ob: "length p + 16 \<le> length ob"
      and ob2: "length p \<le> length ob2"
  shows "status (seal_skeleton A tag_len m1 m2 (Some p) (of_nat (length p)) (Some k) (Some n) 12
                 (Some a) (of_nat (length a)) (Some ob))
           = Returned (int_of_size_t (of_nat (length p + 16)))
       \<and> open_skeleton A tag_len m3 m4
            (out_buffer (seal_skeleton A tag_len m1 m2 (Some p) (of_nat (length p)) (Some k)
                 (Some n) 12 (Some a) (of_nat (length a)) (Some ob)))
            (of_nat (length p + 16)) (Some k) (Some n) 12 (Some a) (of_nat (length a)) (Some ob2)
           = \<lparr>status = Returned (int_of_size_t (of_nat (length p))),
              out_buffer = Some (p @ drop (length p) ob2),
              events = [Ctx_init, Ctx_open, Ctx_cleanup]\<rparr>"
proof -
  from c have c': "init_accepts A tag_len" "seal_length_law A"
    "open_inverts_seal A" "EVP_AEAD_key_length A = 32" "EVP_AEAD_max_overhead A = 16"
    by (simp_all add: aead_contract_def)
  from roundtrip_skeleton [OF c'(1) sa c'(2-5) tl k n a p ob, of m1 m2 m3 m4]
  obtain ct where
    e: "seal_skeleton A tag_len m1 m2 (Some p) (of_nat (length p)) (Some k) (Some n) 12
                 (Some a) (of_nat (length a)) (Some ob)
               = \<lparr>status = Returned (int_of_size_t (of_nat (length p + 16))),
                  out_buffer = Some (ct @ drop (length p + 16) ob),
                  events = [Ctx_init, Ctx_seal, Ctx_cleanup]\<rparr>"
    and d: "open_skeleton A tag_len m3 m4 (Some (ct @ drop (length p + 16) ob))
                    (of_nat (length p + 16)) (Some k) (Some n) 12
                    (Some a) (of_nat (length a)) (Some ob2)
                  = \<lparr>status = Returned (int_of_size_t (of_nat (length p))),
                     out_buffer = Some (p @ drop (length p) ob2),
                     events = [Ctx_init, Ctx_open, Ctx_cleanup]\<rparr>"
    using ob2 by blast
  show ?thesis
    unfolding e using d by simp
qed

text \<open>
  Claim C1, amended. For both algorithms, given a library that meets \<open>aead_contract\<close>
  (key length 32, overhead 16, context initialisation accepts every 32-byte key, seal
  writes input length plus 16 bytes, open inverts seal) and whose macro
  \<open>EVP_AEAD_DEFAULT_TAG_LENGTH\<close> is at most 16: for every plaintext \<open>p\<close> with
  \<open>length p + 16 < 2^31\<close>, every 32-byte key, every 12-byte nonce and every associated
  data such that the library's seal accepts this nonce, plaintext and associated data
  (all pointers non-null, output buffers large enough), encrypt returns \<open>length p + 16\<close>,
  and decrypt of what encrypt wrote, with that length and the same key, nonce and
  associated data, returns \<open>length p\<close> and leaves \<open>p\<close> at the start of its output buffer.
\<close>

theorem round_trip_within_int_range:
  assumes "aead_contract (EVP_aead_aes_256_gcm L) (EVP_AEAD_DEFAULT_TAG_LENGTH L)"
      and "aead_contract (EVP_aead_chacha20_poly1305 L) (EVP_AEAD_DEFAULT_TAG_LENGTH L)"
      and "EVP_AEAD_DEFAULT_TAG_LENGTH L \<le> 16"
      and "seal_accepts_input (EVP_aead_aes_256_gcm L) n p a"
      and "seal_accepts_input (EVP_aead_chacha20_poly1305 L) n p a"
      and "length k = 32"
      and "length n = 12"
      and "length a < 2 ^ 64"
      and "length p + 16 < 2 ^ 31"
      and "length p + 16 \<le> length ob"
      and "length p \<le> length ob2"
  shows "status (encrypt_aes_gcm_256 L (Some p) (of_nat (length p)) (Some k) (Some n) 12
                  (Some a) (of_nat (length a)) (Some ob))
           = Returned (int (length p) + 16)
       \<and> decrypt_aes_gcm_256 L
            (out_buffer (encrypt_aes_gcm_256 L (Some p) (of_nat (length p)) (Some k) (Some n) 12
                  (Some a) (of_nat (length a)) (Some ob)))
            (of_nat (length p + 16)) (Some k) (Some n) 12 (Some a) (of_nat (length a)) (Some ob2)
           = \<lparr>status = Returned (int (length p)),
              out_buffer = Some (p @ drop (length p) ob2),
              events = [Ctx_init, Ctx_open, Ctx_cleanup]\<rparr>
       \<and> status (encrypt_chacha20_poly1305 L (Some p) (of_nat (length p)) (Some k) (Some n) 12
                  (Some a) (of_nat (length a)) (Some ob))
           = Returned (int (length p) + 16)
       \<and> decrypt_chacha20_poly1305 L
            (out_buffer (encrypt_chacha20_poly1305 L (Some p) (of_nat (length p)) (Some k) (Some n) 12
                  (Some a) (of_nat (length a)) (Some ob)))
            (of_nat (length p + 16)) (Some k) (Some n) 12 (Some a) (of_nat (length a)) (Some ob2)
           = \<lparr>status = Returned (int (length p)),
              out_buffer = Some (p @ drop (length p) ob2),
              events = [Ctx_init, Ctx_open, Ctx_cleanup]\<rparr>"
proof -
  from assms(9) have p64: "length p + 16 < 2 ^ 64" by simp
  from assms(9) have p31: "length p < 2 ^ 31" by simp
  have i1: "int_of_size_t (of_nat (length p + 16)) = int (length p) + 16"
    using int_of_size_t_of_nat [OF assms(9)] by simp
  have i2: "int_of_size_t (of_nat (length p)) = int (length p)"
    by (rule int_of_size_t_of_nat [OF p31])
  note a = roundtrip_skeleton_result [OF assms(1) assms(3) assms(4) assms(6) assms(7) assms(8)
      p64 assms(10) assms(11), unfolded i1 i2]
  note b = roundtrip_skeleton_result [OF assms(2) assms(3) assms(5) assms(6) assms(7) assms(8)
      p64 assms(10) assms(11), unfolded i1 i2]
  show ?thesis
    unfolding skeletons by (intro conjI a [THEN conjunct1] a [THEN conjunct2]
        b [THEN conjunct1] b [THEN conjunct2])
qed

theorem round_trip_within_int_range_witness:
  "status (encrypt_aes_gcm_256 stand_in_library (Some [104, 101, 108, 108, 111]) 5
       (Some (replicate 32 0)) (Some (replicate 12 0)) 12 (Some []) 0 (Some (replicate 21 0)))
     = Returned 21
   \<and> decrypt_aes_gcm_256 stand_in_library
       (out_buffer (encrypt_aes_gcm_256 stand_in_library (Some [104, 101, 108, 108, 111]) 5
         (Some (replicate 32 0)) (Some (replicate 12 0)) 12 (Some []) 0 (Some (replicate 21 0))))
       21 (Some (replicate 32 0)) (Some (replicate 12 0)) 12 (Some []) 0 (Some (replicate 5 0))
     = \<lparr>status = Returned 5, out_buffer = Some [104, 101, 108, 108, 111],
        events = [Ctx_init, Ctx_open, Ctx_cleanup]\<rparr>
   \<and> status (encrypt_chacha20_poly1305 stand_in_library (Some [104, 101, 108, 108, 111]) 5
       (Some (replicate 32 0)) (Some (replicate 12 0)) 12 (Some []) 0 (Some (replicate 21 0)))
     = Returned 21
   \<and> decrypt_chacha20_poly1305 stand_in_library
       (out_buffer (encrypt_chacha20_poly1305 stand_in_library (Some [104, 101, 108, 108, 111]) 5
         (Some (replicate 32 0)) (Some (replicate 12 0)) 12 (Some []) 0 (Some (replicate 21 0))))
       21 (Some (replicate 32 0)) (Some (replicate 12 0)) 12 (Some []) 0 (Some (replicate 5 0))
     = \<lparr>status = Returned 5, out_buffer = Some [104, 101, 108, 108, 111],
        events = [Ctx_init, Ctx_open, Ctx_cleanup]\<rparr>"
proof -
  have h: "length (replicate 32 (0 :: byte)) = 32" "length (replicate 12 (0 :: byte)) = 12"
    "length ([] :: byte list) < 2 ^ 64"
    "length [104, 101, 108, 108, 111 :: byte] + 16 < 2 ^ 31"
    "length [104, 101, 108, 108, 111 :: byte] + 16 \<le> length (replicate 21 (0 :: byte))"
    "length [104, 101, 108, 108, 111 :: byte] \<le> length (replicate 5 (0 :: byte))"
    by simp_all
  have s: "seal_accepts_input (EVP_aead_aes_256_gcm stand_in_library) (replicate 12 0)
             [104, 101, 108, 108, 111] []"
          "seal_accepts_input (EVP_aead_chacha20_poly1305 stand_in_library) (replicate 12 0)
             [104, 101, 108, 108, 111] []"
    by (simp_all add: stand_in_library_def stand_in_seal_accepts_input)
  show ?thesis
    using round_trip_within_int_range [OF stand_in_library_contract s h]
    by simp
qed

text \<open>
  Claim C1 as stated, for every plaintext, fails at \<open>2^31\<close> bytes: the sealed output is
  written and opens to the plaintext, but encrypt returns \<open>-2147483632\<close> and decrypt
  returns \<open>-2147483648\<close>, both negative, through the cast to \<open>int\<close>.
\<close>

theorem round_trip_counterexample:
  "status (encrypt_aes_gcm_256 stand_in_library (Some (replicate 2147483648 0)) 2147483648
       (Some (replicate 32 0)) (Some (replicate 12 0)) 12 (Some []) 0
       (Some (replicate 2147483664 0)))
     = Returned (- 2147483632)
   \<and> status (decrypt_aes_gcm_256 stand_in_library
       (out_buffer (encrypt_aes_gcm_256 stand_in_library (Some (replicate 2147483648 0)) 2147483648
         (Some (replicate 32 0)) (Some (replicate 12 0)) 12 (Some []) 0
         (Some (replicate 2147483664 0))))
       2147483664 (Some (replicate 32 0)) (Some (replicate 12 0)) 12 (Some []) 0
       (Some (replicate 2147483648 0)))
     = Returned (- 2147483648)
   \<and> status (encrypt_chacha20_poly1305 stand_in_library (Some (replicate 2147483648 0)) 2147483648
       (Some (replicate 32 0)) (Some (replicate 12 0)) 12 (Some []) 0
       (Some (replicate 2147483664 0)))
     = Returned (- 2147483632)
   \<and> status (decrypt_chacha20_poly1305 stand_in_library
       (out_buffer (encrypt_chacha20_poly1305 stand_in_library (Some (replicate 2147483648 0)) 2147483648
         (Some (replicate 32 0)) (Some (replicate 12 0)) 12 (Some []) 0
         (Some (replicate 2147483664 0))))
       2147483664 (Some (replicate 32 0)) (Some (replicate 12 0)) 12 (Some []) 0
       (Some (replicate 2147483648 0)))
     = Returned (- 2147483648)"
proof -
  let ?p = "replicate 2147483648 (0 :: byte)"
  have h: "length (replicate 32 (0 :: byte)) = 32" "length (replicate 12 (0 :: byte)) = 12"
    "length ([] :: byte list) < 2 ^ 64"
    "length ?p + 16 < 2 ^ 64"
    "length ?p + 16 \<le> length (replicate 2147483664 (0 :: byte))"
    "length ?p \<le> length (replicate 2147483648 (0 :: byte))"
    by simp_all
  have s: "seal_accepts_input (EVP_aead_aes_256_gcm stand_in_library) (replicate 12 0) ?p []"
          "seal_accepts_input (EVP_aead_chacha20_poly1305 stand_in_library) (replicate 12 0) ?p []"
    by (simp_all add: stand_in_library_def stand_in_seal_accepts_input)
  have l: "(of_nat (length ?p) :: size_t) = 2147483648"
          "(of_nat (length ?p + 16) :: size_t) = 2147483664"
          "(of_nat (length ([] :: byte list)) :: size_t) = 0"
    by simp_all
  have i: "int_of_size_t 2147483664 = - 2147483632" "int_of_size_t 2147483648 = - 2147483648"
    by (simp_all add: int_of_size_t_def)
  note a = roundtrip_skeleton_result [OF stand_in_library_contract(1) stand_in_library_contract(3)
      s(1) h, unfolded l i]
  note b = roundtrip_skeleton_result [OF stand_in_library_contract(2) stand_in_library_contract(3)
      s(2) h, unfolded l i]
  have r: "status x = s" if "x = \<lparr>status = s, out_buffer = b, events = e\<rparr>" for x :: result and s b e
    using that by simp
  show ?thesis
    unfolding skeletons
    by (intro conjI a [THEN conjunct1] b [THEN conjunct1]
          r [OF a [THEN conjunct2]] r [OF b [THEN conjunct2]])
qed

section \<open>Tamper detection\<close>

lemma error_path_room:
  "0 < unat m \<Longrightarrow> unat m \<le> length ob \<Longrightarrow> error_path (Some ob) m = Zero"
  by (simp add: error_path_def store_def)

lemma error_path_overrun: "length ob < unat m \<Longrightarrow> error_path (Some ob) m = Crashed"
  by (auto simp: error_path_def store_def)

lemma cleared_room:
  "unat m \<le> length ob \<Longrightarrow> cleared (Some ob) m = Some (replicate (unat m) 0 @ drop (unat m) ob)"
  by (simp add: cleared_def store_def)

lemma single_bit_flip_length: "single_bit_flip xs ys \<Longrightarrow> length ys = length xs"
  using xor_sum_flip by blast

lemma tampered_lengths:
  assumes "tampered c k n a c' k' n' a'"
  shows "length c' = length c" "length k' = length k" "length n' = length n"
    "length a' = length a"
  using assms unfolding tampered_def by (auto dest: single_bit_flip_length)

text \<open>
  What decrypt does with a tampered sealed output, given a library whose open rejects it:
  the open step fails and the library clears \<open>max_out_len = ciphertext_tag_len\<close> bytes of
  the output buffer. With a buffer of at least that many bytes the call returns \<open>-2\<close> and
  those bytes are zero; with a shorter one, the documented \<open>ciphertext_tag_len - 16\<close>
  bytes included, the clearing runs past the end of the buffer.
\<close>

lemma tamper_skeleton:
  assumes init: "init_accepts A tag_len"
      and slen: "seal_length_law A"
      and rej: "open_rejects_tampered A tag_len"
      and tl: "tag_len \<le> 16"
      and k: "length k = 32"
      and n: "length n = 12"
      and a: "length a < 2 ^ 64"
      and p: "length p + 16 < 2 ^ 64"
      and enc_ok: "events (seal_skeleton A tag_len m1 m2 (Some p) (of_nat (length p)) (Some k)
                     (Some n) 12 (Some a) (of_nat (length a)) (Some ob))
                   = [Ctx_init, Ctx_seal, Ctx_cleanup]"
      and sealed: "out_buffer (seal_skeleton A tag_len m1 m2 (Some p) (of_nat (length p)) (Some k)
                     (Some n) 12 (Some a) (of_nat (length a)) (Some ob))
                   = Some sealed"
      and t: "tampered (take (length p + 16) sealed) k n a c' k' n' a'"
  shows "open_skeleton A tag_len m3 m4 (Some c') (of_nat (length p + 16)) (Some k')
           (Some n') 12 (Some a') (of_nat (length a)) (Some ob2)
         = (if length p + 16 \<le> length ob2
            then \<lparr>status = Returned (- 2),
                  out_buffer = Some (replicate (length p + 16) 0 @ drop (length p + 16) ob2),
                  events = [Ctx_init, Ctx_open, Stderr m4, Ctx_cleanup]\<rparr>
            else \<lparr>status = Undefined, out_buffer = Some ob2,
                  events = [Ctx_init, Ctx_open]\<rparr>)"
proof -
  have valid: "\<not> args_invalid A (Some p) (Some k) (Some n) 12 (Some ob)"
  proof
    assume "args_invalid A (Some p) (Some k) (Some n) 12 (Some ob)"
    from seal_skeleton_invalid [OF this] enc_ok show False by simp
  qed
  then have kl: "EVP_AEAD_key_length A = 32" by (simp add: args_invalid_def)
  have rk: "region (Some k) 32 = Some k"
    using region_exact [of k] k by simp
  have rn: "region (Some n) 12 = Some n"
    using region_exact [of n] n by simp
  have ra: "region (Some a) (of_nat (length a)) = Some a"
    by (rule region_exact [OF a])
  from p have p': "length p < 2 ^ 64" by simp
  have rp: "region (Some p) (of_nat (length p)) = Some p"
    by (rule region_exact [OF p'])
  from init k obtain ctx where ctx: "aead_init A k tag_len = Some ctx"
    unfolding init_accepts_def by blast
  have ci: "EVP_AEAD_CTX_init A (Some k) 32 tag_len = One ctx"
    by (simp add: EVP_AEAD_CTX_init_def rk ctx)
  let ?m = "of_nat (length p) + EVP_AEAD_max_overhead A"
  from enc_ok sealed obtain len where
    cs: "EVP_AEAD_CTX_seal A ctx (Some ob) ?m (Some n) 12 (Some p) (of_nat (length p))
           (Some a) (of_nat (length a)) = One (Some sealed, len)"
    by (auto simp: seal_skeleton_valid [OF valid] ci split: call.splits)
  then obtain ct where ct: "aead_seal A ctx ?m n p a = Some ct"
    and st: "store (Some ob) ct = Some (Some sealed)"
    by (auto simp: EVP_AEAD_CTX_seal_def error_path_def rn rp ra split: option.splits if_splits)
  from slen ct have lct: "length ct = length p + 16"
    unfolding seal_length_law_def by blast
  then have "ct \<noteq> []" by auto
  with st have "sealed = ct @ drop (length ct) ob"
    by (auto simp: store_def split: if_splits)
  with lct have tk: "take (length p + 16) sealed = ct" by simp
  note t' = t [unfolded tk]
  note ls = tampered_lengths [OF t', unfolded lct k n]
  have valid': "\<not> args_invalid A (Some c') (Some k') (Some n') 12 (Some ob2)"
    by (simp add: args_invalid_def kl)
  have u: "unat (of_nat (length p + 16) :: size_t) = length p + 16"
    by (rule unat_of_nat_size_t [OF p])
  have "unat tag_len \<le> 16" using tl by (simp add: word_le_nat_alt)
  with u have long: "\<not> (of_nat (length p + 16) :: size_t) < tag_len"
    by (simp add: word_less_nat_alt)
  from init ls(2) obtain ctx' where ctx': "aead_init A k' tag_len = Some ctx'"
    unfolding init_accepts_def by blast
  have rk': "region (Some k') 32 = Some k'"
    using region_exact [of k'] ls(2) by simp
  have ci': "EVP_AEAD_CTX_init A (Some k') 32 tag_len = One ctx'"
    by (simp add: EVP_AEAD_CTX_init_def rk' ctx')
  have rn': "region (Some n') 12 = Some n'"
    using region_exact [of n'] ls(3) by simp
  have ra': "region (Some a') (of_nat (length a)) = Some a'"
    using region_exact [of a'] a ls(4) by simp
  have rc': "region (Some c') (of_nat (length p + 16)) = Some c'"
    using region_exact [of c'] p ls(1) by simp
  from rej ctx ct t' ctx' have
    op: "aead_open A ctx' (of_nat (length p + 16)) n' c' a' = None"
    unfolding open_rejects_tampered_def by blast
  have co: "EVP_AEAD_CTX_open A ctx' (Some ob2) (of_nat (length p + 16)) (Some n') 12
              (Some c') (of_nat (length p + 16)) (Some a') (of_nat (length a))
            = error_path (Some ob2) (of_nat (length p + 16))"
    by (simp only: EVP_AEAD_CTX_open_def rn' rc' ra' op option.case if_cancel)
  show ?thesis
  proof (cases "length p + 16 \<le> length ob2")
    case True
    have z: "error_path (Some ob2) (of_nat (length p + 16) :: size_t)
               = (Zero :: (ptr \<times> size_t) call)"
    proof (rule error_path_room)
      show "0 < unat (of_nat (length p + 16) :: size_t)" unfolding u by simp
      show "unat (of_nat (length p + 16) :: size_t) \<le> length ob2" unfolding u by (rule True)
    qed
    have c: "cleared (Some ob2) (of_nat (length p + 16) :: size_t)
               = Some (replicate (length p + 16) 0 @ drop (length p + 16) ob2)"
      using cleared_room [of "of_nat (length p + 16)" ob2] True by (simp only: u)
    show ?thesis
      by (simp only: open_skeleton_valid [OF valid'] long if_False ci' co z c call.case True
            if_True)
  next
    case False
    have z: "error_path (Some ob2) (of_nat (length p + 16) :: size_t)
               = (Crashed :: (ptr \<times> size_t) call)"
    proof (rule error_path_overrun)
      from False show "length ob2 < unat (of_nat (length p + 16) :: size_t)"
        unfolding u by simp
    qed
    show ?thesis
      by (simp only: open_skeleton_valid [OF valid'] long if_False ci' co z call.case False)
  qed
qed

lemma tampered_input_rejected:
  assumes "init_accepts (EVP_aead_aes_256_gcm L) (EVP_AEAD_DEFAULT_TAG_LENGTH L)"
      and "seal_length_law (EVP_aead_aes_256_gcm L)"
      and "open_rejects_tampered (EVP_aead_aes_256_gcm L) (EVP_AEAD_DEFAULT_TAG_LENGTH L)"
      and "init_accepts (EVP_aead_chacha20_poly1305 L) (EVP_AEAD_DEFAULT_TAG_LENGTH L)"
      and "seal_length_law (EVP_aead_chacha20_poly1305 L)"
      and "open_rejects_tampered (EVP_aead_chacha20_poly1305 L) (EVP_AEAD_DEFAULT_TAG_LENGTH L)"
      and "EVP_AEAD_DEFAULT_TAG_LENGTH L \<le> 16"
      and "length k = 32"
      and "length n = 12"
      and "length a < 2 ^ 64"
      and "length p + 16 < 2 ^ 64"
  shows
   "(events (encrypt_aes_gcm_256 L (Some p) (of_nat (length p)) (Some k) (Some n) 12
               (Some a) (of_nat (length a)) (Some ob)) = [Ctx_init, Ctx_seal, Ctx_cleanup]
     \<and> out_buffer (encrypt_aes_gcm_256 L (Some p) (of_nat (length p)) (Some k) (Some n) 12
               (Some a) (of_nat (length a)) (Some ob)) = Some sealed
     \<and> tampered (take (length p + 16) sealed) k n a c' k' n' a'
     \<longrightarrow> decrypt_aes_gcm_256 L (Some c') (of_nat (length p + 16)) (Some k') (Some n') 12
                  (Some a') (of_nat (length a)) (Some ob2)
         = (if length p + 16 \<le> length ob2
            then \<lparr>status = Returned (- 2),
                  out_buffer = Some (replicate (length p + 16) 0 @ drop (length p + 16) ob2),
                  events = [Ctx_init, Ctx_open, Stderr ''EVP_AEAD_CTX_open (AES)'',
                            Ctx_cleanup]\<rparr>
            else \<lparr>status = Undefined, out_buffer = Some ob2,
                  events = [Ctx_init, Ctx_open]\<rparr>))
    \<and> (events (encrypt_chacha20_poly1305 L (Some p) (of_nat (length p)) (Some k) (Some n) 12
               (Some a) (of_nat (length a)) (Some ob)) = [Ctx_init, Ctx_seal, Ctx_cleanup]
     \<and> out_buffer (encrypt_chacha20_poly1305 L (Some p) (of_nat (length p)) (Some k) (Some n) 12
               (Some a) (of_nat (length a)) (Some ob)) = Some sealed
     \<and> tampered (take (length p + 16) sealed) k n a c' k' n' a'
     \<longrightarrow> decrypt_chacha20_poly1305 L (Some c') (of_nat (length p + 16)) (Some k') (Some n') 12
                  (Some a') (of_nat (length a)) (Some ob2)
         = (if length p + 16 \<le> length ob2
            then \<lparr>status = Returned (- 2),
                  out_buffer = Some (replicate (length p + 16) 0 @ drop (length p + 16) ob2),
                  events = [Ctx_init, Ctx_open, Stderr ''EVP_AEAD_CTX_open (ChaCha)'',
                            Ctx_cleanup]\<rparr>
            else \<lparr>status = Undefined, out_buffer = Some ob2,
                  events = [Ctx_init, Ctx_open]\<rparr>))"
  unfolding skeletons
proof (rule conjI; rule impI; elim conjE)
  show "open_skeleton (EVP_aead_aes_256_gcm L) (EVP_AEAD_DEFAULT_TAG_LENGTH L) m3 m4 (Some c')
          (of_nat (length p + 16)) (Some k') (Some n') 12 (Some a') (of_nat (length a)) (Some ob2)
        = (if length p + 16 \<le> length ob2
           then \<lparr>status = Returned (- 2),
                 out_buffer = Some (replicate (length p + 16) 0 @ drop (length p + 16) ob2),
                 events = [Ctx_init, Ctx_open, Stderr m4, Ctx_cleanup]\<rparr>
           else \<lparr>status = Undefined, out_buffer = Some ob2,
                 events = [Ctx_init, Ctx_open]\<rparr>)"
    if "events (seal_skeleton (EVP_aead_aes_256_gcm L) (EVP_AEAD_DEFAULT_TAG_LENGTH L) m1 m2
            (Some p) (of_nat (length p)) (Some k) (Some n) 12 (Some a) (of_nat (length a))
            (Some ob)) = [Ctx_init, Ctx_seal, Ctx_cleanup]"
      and "out_buffer (seal_skeleton (EVP_aead_aes_256_gcm L) (EVP_AEAD_DEFAULT_TAG_LENGTH L) m1 m2
            (Some p) (of_nat (length p)) (Some k) (Some n) 12 (Some a) (of_nat (length a))
            (Some ob)) = Some sealed"
      and "tampered (take (length p + 16) sealed) k n a c' k' n' a'"
    for m1 m2 m3 m4
    by (rule tamper_skeleton [OF assms(1,2,3) assms(7-11) that])
  show "open_skeleton (EVP_aead_chacha20_poly1305 L) (EVP_AEAD_DEFAULT_TAG_LENGTH L) m3 m4 (Some c')
          (of_nat (length p + 16)) (Some k') (Some n') 12 (Some a') (of_nat (length a)) (Some ob2)
        = (if length p + 16 \<le> length ob2
           then \<lparr>status = Returned (- 2),
                 out_buffer = Some (replicate (length p + 16) 0 @ drop (length p + 16) ob2),
                 events = [Ctx_init, Ctx_open, Stderr m4, Ctx_cleanup]\<rparr>
           else \<lparr>status = Undefined, out_buffer = Some ob2,
                 events = [Ctx_init, Ctx_open]\<rparr>)"
    if "events (seal_skeleton (EVP_aead_chacha20_poly1305 L) (EVP_AEAD_DEFAULT_TAG_LENGTH L) m1 m2
            (Some p) (of_nat (length p)) (Some k) (Some n) 12 (Some a) (of_nat (length a))
            (Some ob)) = [Ctx_init, Ctx_seal, Ctx_cleanup]"
      and "out_buffer (seal_skeleton (EVP_aead_chacha20_poly1305 L) (EVP_AEAD_DEFAULT_TAG_LENGTH L) m1 m2
            (Some p) (of_nat (length p)) (Some k) (Some n) 12 (Some a) (of_nat (length a))
            (Some ob)) = Some sealed"
      and "tampered (take (length p + 16) sealed) k n a c' k' n' a'"
    for m1 m2 m3 m4
    by (rule tamper_skeleton [OF assms(4,5,6) assms(7-11) that])
qed

text \<open>
  Claim C3. The claim does not hold of the code when the output buffer has the size the
  code documents, \<open>ciphertext_tag_len - 16\<close> bytes. The sealed output of \<open>hello\<close> (key and
  nonce zero, no associated data) with bit 3 flipped, decrypted into a 5-byte buffer:
  the open step rejects it, and clearing \<open>max_out_len = 21\<close> bytes (lines 120 and 239 pass
  \<open>ciphertext_tag_len\<close> as \<open>max_out_len\<close>) writes 16 bytes past the end of the buffer.
  The call has undefined behaviour where the claim says it returns \<open>-2\<close> and never
  crashes.
\<close>

theorem tampered_input_overruns_output_buffer:
  "encrypt_aes_gcm_256 stand_in_library (Some [104, 101, 108, 108, 111]) 5
       (Some (replicate 32 0)) (Some (replicate 12 0)) 12 (Some []) 0 (Some (replicate 21 0))
     = \<lparr>status = Returned 21, out_buffer = Some ([104, 101, 108, 108, 111] @ replicate 16 98),
        events = [Ctx_init, Ctx_seal, Ctx_cleanup]\<rparr>
   \<and> decrypt_aes_gcm_256 stand_in_library
       (Some (flip_bit_at ([104, 101, 108, 108, 111] @ replicate 16 98) 3)) 21
       (Some (replicate 32 0)) (Some (replicate 12 0)) 12 (Some []) 0 (Some (replicate 5 0))
     = \<lparr>status = Undefined, out_buffer = Some (replicate 5 0), events = [Ctx_init, Ctx_open]\<rparr>
   \<and> encrypt_chacha20_poly1305 stand_in_library (Some [104, 101, 108, 108, 111]) 5
       (Some (replicate 32 0)) (Some (replicate 12 0)) 12 (Some []) 0 (Some (replicate 21 0))
     = \<lparr>status = Returned 21, out_buffer = Some ([104, 101, 108, 108, 111] @ replicate 16 98),
        events = [Ctx_init, Ctx_seal, Ctx_cleanup]\<rparr>
   \<and> decrypt_chacha20_poly1305 stand_in_library
       (Some (flip_bit_at ([104, 101, 108, 108, 111] @ replicate 16 98) 3)) 21
       (Some (replicate 32 0)) (Some (replicate 12 0)) 12 (Some []) 0 (Some (replicate 5 0))
     = \<lparr>status = Undefined, out_buffer = Some (replicate 5 0), events = [Ctx_init, Ctx_open]\<rparr>"
  by (simp add: encrypt_aes_gcm_256_def decrypt_aes_gcm_256_def encrypt_chacha20_poly1305_def
        decrypt_chacha20_poly1305_def stand_in_eval flip_bit_at_def)

text \<open>
  With 21 bytes of room the same call returns \<open>-2\<close> and the buffer is cleared.
\<close>

lemma tampered_input_with_room:
  "decrypt_aes_gcm_256 stand_in_library
       (Some (flip_bit_at ([104, 101, 108, 108, 111] @ replicate 16 98) 3)) 21
       (Some (replicate 32 0)) (Some (replicate 12 0)) 12 (Some []) 0 (Some (replicate 21 170))
     = \<lparr>status = Returned (- 2), out_buffer = Some (replicate 21 0),
        events = [Ctx_init, Ctx_open, Stderr ''EVP_AEAD_CTX_open (AES)'', Ctx_cleanup]\<rparr>"
  by (simp add: decrypt_aes_gcm_256_def stand_in_eval flip_bit_at_def)

end
